theory Spec2Isabelle
  imports Main "HOL-Library.Finite_Map" "HOL-Library.List_Lexorder" "HOL-Library.Char_ord"
begin

section \<open>Errors\<close>

text \<open>
  Go errors are values. The API client classifies its failures by a status reason
  (\<^verbatim>\<open>apierrors.IsAlreadyExists\<close>, \<^verbatim>\<open>IsConflict\<close>, \<^verbatim>\<open>IsNotFound\<close>, \<^verbatim>\<open>IsForbidden\<close>);
  \<^verbatim>\<open>errors.Wrap(err, msg)\<close> keeps the cause, and the classification looks through the
  wrapping. \<open>DeadlineExceeded\<close> is what a poll returns when its time bound is reached.
\<close>

datatype StatusReason = AlreadyExists | Conflict | NotFound | Forbidden | OtherReason

datatype error =
    APIStatusError StatusReason
  | ErrorString string
  | Wrapped error string
  | DeadlineExceeded

fun ReasonForError :: "error \<Rightarrow> StatusReason option" where
  "ReasonForError (APIStatusError r) = Some r"
| "ReasonForError (Wrapped e msg) = ReasonForError e"
| "ReasonForError (ErrorString s) = None"
| "ReasonForError DeadlineExceeded = None"

definition IsAlreadyExists :: "error \<Rightarrow> bool" where
  "IsAlreadyExists e = (ReasonForError e = Some AlreadyExists)"

definition IsConflict :: "error \<Rightarrow> bool" where
  "IsConflict e = (ReasonForError e = Some Conflict)"

definition IsNotFound :: "error \<Rightarrow> bool" where
  "IsNotFound e = (ReasonForError e = Some NotFound)"

definition IsForbidden :: "error \<Rightarrow> bool" where
  "IsForbidden e = (ReasonForError e = Some Forbidden)"

section \<open>Data model of the version manager\<close>

record QualifiedName =
  Namespace :: string
  Name :: string

text \<open>
  Modelled from the spec: \<^verbatim>\<open>util.QualifiedName.String\<close> is not among the sources; the
  key is rendered as \<^verbatim>\<open>namespace/name\<close>, or just \<^verbatim>\<open>name\<close> for a cluster-scoped
  resource.
\<close>

definition QualifiedName_String :: "QualifiedName \<Rightarrow> string" where
  "QualifiedName_String n =
     (if Namespace n = [] then Name n else Namespace n @ ''/'' @ Name n)"

record ClusterObjectVersion =
  ClusterName :: string
  Version :: string

record PropagatedVersionStatus =
  TemplateVersion :: string
  OverrideVersion :: string
  ClusterVersions :: "ClusterObjectVersion list"

record OwnerReference =
  ownerAPIVersion :: string
  ownerKind :: string
  ownerName :: string
  ownerUID :: string

text \<open>
  The persisted propagated-version object, as far as the manager reads and writes it:
  its qualified name, the resource-version token of its metadata, its owner references
  and its status.
\<close>

record VersionObj =
  objName :: QualifiedName
  ResourceVersion :: string
  OwnerReferences :: "OwnerReference list"
  Status :: PropagatedVersionStatus

text \<open>
  Modelled from the spec: the version adapter (\<^verbatim>\<open>VersionAdapter\<close>) is not among the
  sources. It maps a propagated-version record to and from the persisted object:
  \<open>GetStatus\<close> reads the record of an object, \<open>SetStatus\<close> replaces it, and
  \<open>NewVersion\<close> builds a fresh object (no resource version yet) owned by the
  federated resource.
\<close>

definition GetStatus :: "VersionObj \<Rightarrow> PropagatedVersionStatus" where
  "GetStatus ob = Status ob"

definition SetStatus :: "VersionObj \<Rightarrow> PropagatedVersionStatus \<Rightarrow> VersionObj" where
  "SetStatus ob st = ob\<lparr>Status := st\<rparr>"

definition NewVersion ::
  "QualifiedName \<Rightarrow> OwnerReference \<Rightarrow> PropagatedVersionStatus \<Rightarrow> VersionObj" where
  "NewVersion qn ownerRef st =
     \<lparr>objName = qn, ResourceVersion = [], OwnerReferences = [ownerRef], Status = st\<rparr>"

text \<open>
  A \<^verbatim>\<open>VersionedResource\<close>: the interface's four methods, as the values they return.
  \<open>vrObject\<close> stands for what \<^verbatim>\<open>ownerReferenceForUnstructured(resource.Object())\<close>
  reads of the object; the two version methods may fail.
\<close>

record VersionedResource =
  FederatedName :: QualifiedName
  vrObject :: OwnerReference
  vrTemplateVersion :: "error + string"
  vrOverrideVersion :: "error + string"

text \<open>
  The manager's in-memory state. \<open>versions\<close> is the cache, keyed by the rendered
  qualified name. \<open>PropagatedVersionName\<close> is a parameter: it stands for
  \<^verbatim>\<open>common.PropagatedVersionName\<close>, which is not among the sources and derives the
  record's name from the target kind and the resource's name.
\<close>

record VersionManager =
  targetKind :: string
  federatedKind :: string
  namespace :: string
  hasSynced :: bool
  versions :: "(string, VersionObj) fmap"
  PropagatedVersionName :: "string \<Rightarrow> string \<Rightarrow> string"

definition versionQualifiedName :: "VersionManager \<Rightarrow> QualifiedName \<Rightarrow> QualifiedName" where
  "versionQualifiedName m qualifiedName =
     \<lparr>Namespace = Namespace qualifiedName,
      Name = PropagatedVersionName m (targetKind m) (Name qualifiedName)\<rparr>"

definition versionKey :: "VersionManager \<Rightarrow> VersionedResource \<Rightarrow> string" where
  "versionKey m resource =
     QualifiedName_String (versionQualifiedName m (FederatedName resource))"

section \<open>Cluster version lists\<close>

text \<open>
  Modelled from the spec: \<^verbatim>\<open>util.SortClusterVersions\<close> is not among the sources; it
  sorts a cluster-version list by cluster name, ascending.
\<close>

definition SortClusterVersions :: "ClusterObjectVersion list \<Rightarrow> ClusterObjectVersion list" where
  "SortClusterVersions vs = sort_key ClusterName vs"

text \<open>
  Modelled from the spec: \<^verbatim>\<open>util.PropagatedVersionStatusEquivalent\<close> is not among
  the sources; it is value equality across the template version, the override version
  and the (normalised) cluster-version lists.
\<close>

definition PropagatedVersionStatusEquivalent ::
  "PropagatedVersionStatus \<Rightarrow> PropagatedVersionStatus \<Rightarrow> bool" where
  "PropagatedVersionStatusEquivalent pvs1 pvs2 =
     (TemplateVersion pvs1 = TemplateVersion pvs2 \<and>
      OverrideVersion pvs1 = OverrideVersion pvs2 \<and>
      ClusterVersions pvs1 = ClusterVersions pvs2)"

text \<open>
  \<^verbatim>\<open>VersionMapToClusterVersions\<close> ranges over the map, skips the entries whose version
  is the empty string ("lack of version indicates deletion"), appends the others and
  sorts the list. Go ranges over a map in no fixed order; the model ranges in key
  order, and \<open>VersionMapToClusterVersions_any_order\<close> below shows that the order of
  the range does not matter.
\<close>

definition appendVersions :: "(string \<times> string) list \<Rightarrow> ClusterObjectVersion list" where
  "appendVersions entries =
     map (\<lambda>(clusterName, version). \<lparr>ClusterName = clusterName, Version = version\<rparr>)
       (filter (\<lambda>(clusterName, version). version \<noteq> []) entries)"

definition VersionMapToClusterVersions ::
  "(string, string) fmap \<Rightarrow> ClusterObjectVersion list" where
  "VersionMapToClusterVersions versionMap =
     SortClusterVersions (appendVersions (sorted_list_of_fmap versionMap))"

text \<open>
  The loop of \<^verbatim>\<open>updateClusterVersions\<close>: an old version is written into the caller's
  map when its cluster is selected and the map has no entry for it. The function
  returns the map as the loop leaves it.
\<close>

fun retainVersions ::
  "string list \<Rightarrow> ClusterObjectVersion list \<Rightarrow> (string, string) fmap \<Rightarrow> (string, string) fmap" where
  "retainVersions selectedClusters [] newVersions = newVersions"
| "retainVersions selectedClusters (oldVersion # oldVersions) newVersions =
     (if ClusterName oldVersion \<notin> set selectedClusters
      then retainVersions selectedClusters oldVersions newVersions
      else if fmlookup newVersions (ClusterName oldVersion) = None
      then retainVersions selectedClusters oldVersions
             (fmupd (ClusterName oldVersion) (Version oldVersion) newVersions)
      else retainVersions selectedClusters oldVersions newVersions)"

text \<open>
  \<^verbatim>\<open>updateClusterVersions\<close> returns the new list; the second component is the
  caller's map after the call, which the Go code changes in place.
\<close>

definition updateClusterVersions ::
  "ClusterObjectVersion list \<Rightarrow> (string, string) fmap \<Rightarrow> string list
     \<Rightarrow> ClusterObjectVersion list \<times> (string, string) fmap" where
  "updateClusterVersions oldVersions newVersions selectedClusters =
     (let newVersions' = retainVersions selectedClusters oldVersions newVersions
      in (VersionMapToClusterVersions newVersions', newVersions'))"

section \<open>Get\<close>

text \<open>
  \<^verbatim>\<open>Get\<close> looks the cached record up first and returns an empty map when there is
  none; only then does it ask the resource for its template and override versions,
  whose failures it returns wrapped. The cluster versions are copied into the result
  map in list order when both versions match those of the record.
\<close>

definition clusterVersionsToMap ::
  "ClusterObjectVersion list \<Rightarrow> (string, string) fmap \<Rightarrow> (string, string) fmap" where
  "clusterVersionsToMap vs versionMap =
     fold (\<lambda>v vm. fmupd (ClusterName v) (Version v) vm) vs versionMap"

definition Get :: "VersionManager \<Rightarrow> VersionedResource \<Rightarrow> error + (string, string) fmap" where
  "Get m resource =
     (case fmlookup (versions m) (versionKey m resource) of
        None \<Rightarrow> Inr fmempty
      | Some ob \<Rightarrow>
          (let status = GetStatus ob in
           case vrTemplateVersion resource of
             Inl e \<Rightarrow> Inl (Wrapped e ''Failed to determine template version'')
           | Inr templateVersion \<Rightarrow>
               (case vrOverrideVersion resource of
                  Inl e \<Rightarrow> Inl (Wrapped e ''Failed to determine override version'')
                | Inr overrideVersion \<Rightarrow>
                    if templateVersion = TemplateVersion status \<and>
                       overrideVersion = OverrideVersion status
                    then Inr (clusterVersionsToMap (ClusterVersions status) fmempty)
                    else Inr fmempty)))"

section \<open>The durable write\<close>

text \<open>
  The generic client is an interface; its three operations used here are parameters.
  Each takes the state of the API, of any type \<open>'a\<close>, and returns its answer with
  the new state. A successful call returns the object as the API filled it in (the Go
  client writes into the object passed).
\<close>

record 'a Client =
  clientCreate :: "'a \<Rightarrow> VersionObj \<Rightarrow> (error + VersionObj) \<times> 'a"
  clientUpdateStatus :: "'a \<Rightarrow> VersionObj \<Rightarrow> (error + VersionObj) \<times> 'a"
  clientGet :: "'a \<Rightarrow> string \<Rightarrow> string \<Rightarrow> (error + VersionObj) \<times> 'a"

text \<open>
  \<^verbatim>\<open>getResourceVersion\<close> cannot fail on these objects (a \<^verbatim>\<open>runtimeclient.Object\<close>
  always has a metadata accessor), so \<^verbatim>\<open>getResourceVersionFromAPI\<close> fails exactly when
  the client's \<^verbatim>\<open>Get\<close> does, and then returns the empty string with the error.
\<close>

definition getResourceVersionFromAPI ::
  "'a Client \<Rightarrow> 'a \<Rightarrow> QualifiedName \<Rightarrow> (string \<times> error option) \<times> 'a" where
  "getResourceVersionFromAPI client a qualifiedName =
     (case clientGet client a (Namespace qualifiedName) (Name qualifiedName) of
        (Inl e, a') \<Rightarrow> (([], Some e), a')
      | (Inr ob, a') \<Rightarrow> ((ResourceVersion ob, None), a'))"

text \<open>
  The variables the polled closure of \<^verbatim>\<open>writeVersion\<close> captures: the token
  \<open>resourceVersion\<close>, the flag \<open>refreshVersion\<close>, and the object \<open>writtenObj\<close>
  (\<^verbatim>\<open>obj\<close>), whose token is set after a successful update. \<open>apiState\<close> is the
  state of the API.
\<close>

record 'a WriteState =
  resourceVersion :: string
  refreshVersion :: bool
  writtenObj :: VersionObj
  apiState :: 'a

text \<open>What the closure returns: \<^verbatim>\<open>(true, nil)\<close>, \<^verbatim>\<open>(false, nil)\<close> or \<^verbatim>\<open>(false, err)\<close>.\<close>

datatype ConditionResult = ConditionDone | ConditionRetry | ConditionError error

text \<open>
  The three sections of the closure. The first two return \<open>Some r\<close> where the closure
  returns \<open>r\<close> from inside them, and \<open>None\<close> where it goes on to the next section.
\<close>

definition refreshSection ::
  "'a Client \<Rightarrow> QualifiedName \<Rightarrow> 'a WriteState \<Rightarrow> ConditionResult option \<times> 'a WriteState" where
  "refreshSection client qualifiedName s =
     (if refreshVersion s then
        (case getResourceVersionFromAPI client (apiState s) qualifiedName of
           ((rv, Some e), a) \<Rightarrow>
             (Some ConditionRetry, s\<lparr>resourceVersion := rv, apiState := a\<rparr>)
         | ((rv, None), a) \<Rightarrow>
             (None, s\<lparr>resourceVersion := rv, refreshVersion := False, apiState := a\<rparr>))
      else (None, s))"

definition createSection ::
  "'a Client \<Rightarrow> 'a WriteState \<Rightarrow> ConditionResult option \<times> 'a WriteState" where
  "createSection client s =
     (if resourceVersion s = [] then
        (let createdObj = (writtenObj s)\<lparr>ResourceVersion := []\<rparr> in
         case clientCreate client (apiState s) createdObj of
           (Inl e, a) \<Rightarrow>
             if IsAlreadyExists e
             then (Some ConditionRetry, s\<lparr>refreshVersion := True, apiState := a\<rparr>)
             else if IsForbidden e
             then (Some (ConditionError e), s\<lparr>apiState := a\<rparr>)
             else (Some ConditionRetry, s\<lparr>apiState := a\<rparr>)
         | (Inr created, a) \<Rightarrow>
             (None, s\<lparr>resourceVersion := ResourceVersion created, apiState := a\<rparr>))
      else (None, s))"

definition updateSection ::
  "'a Client \<Rightarrow> 'a WriteState \<Rightarrow> ConditionResult \<times> 'a WriteState" where
  "updateSection client s =
     (let updatedObj = (writtenObj s)\<lparr>ResourceVersion := resourceVersion s\<rparr> in
      case clientUpdateStatus client (apiState s) updatedObj of
        (Inl e, a) \<Rightarrow>
          if IsConflict e
          then (ConditionRetry, s\<lparr>refreshVersion := True, apiState := a\<rparr>)
          else if IsNotFound e
          then (ConditionRetry, s\<lparr>resourceVersion := [], apiState := a\<rparr>)
          else if IsForbidden e
          then (ConditionError e, s\<lparr>apiState := a\<rparr>)
          else (ConditionRetry, s\<lparr>apiState := a\<rparr>)
      | (Inr updated, a) \<Rightarrow>
          (ConditionDone,
           s\<lparr>resourceVersion := ResourceVersion updated,
             writtenObj := (writtenObj s)\<lparr>ResourceVersion := ResourceVersion updated\<rparr>,
             apiState := a\<rparr>))"

definition writeVersionCondition ::
  "'a Client \<Rightarrow> QualifiedName \<Rightarrow> 'a WriteState \<Rightarrow> ConditionResult \<times> 'a WriteState" where
  "writeVersionCondition client qualifiedName s =
     (case refreshSection client qualifiedName s of
        (Some r, s1) \<Rightarrow> (r, s1)
      | (None, s1) \<Rightarrow>
          (case createSection client s1 of
             (Some r, s2) \<Rightarrow> (r, s2)
           | (None, s2) \<Rightarrow> updateSection client s2))"

text \<open>
  \<^verbatim>\<open>wait.PollUntilContextTimeout\<close> with \<^verbatim>\<open>immediate = true\<close>: the condition runs at
  once, and again after every interval until it is done, fails, or the time is over.
  Time is not modelled: the first argument is the number of further runs that fit
  into the time bound, and the poll that uses them up returns the deadline error.
\<close>

fun PollUntilContextTimeout ::
  "nat \<Rightarrow> ('s \<Rightarrow> ConditionResult \<times> 's) \<Rightarrow> 's \<Rightarrow> error option \<times> 's" where
  "PollUntilContextTimeout 0 condition s =
     (case condition s of
        (ConditionDone, s') \<Rightarrow> (None, s')
      | (ConditionError e, s') \<Rightarrow> (Some e, s')
      | (ConditionRetry, s') \<Rightarrow> (Some DeadlineExceeded, s'))"
| "PollUntilContextTimeout (Suc n) condition s =
     (case condition s of
        (ConditionDone, s') \<Rightarrow> (None, s')
      | (ConditionError e, s') \<Rightarrow> (Some e, s')
      | (ConditionRetry, s') \<Rightarrow> PollUntilContextTimeout n condition s')"

text \<open>
  The variables as \<^verbatim>\<open>writeVersion\<close> sets them before the poll: the token of the
  object, and no refresh pending.
\<close>

definition startWrite :: "VersionObj \<Rightarrow> 'a \<Rightarrow> 'a WriteState" where
  "startWrite ob a =
     \<lparr>resourceVersion = ResourceVersion ob, refreshVersion = False,
      writtenObj = ob, apiState = a\<rparr>"

text \<open>
  The poll of \<^verbatim>\<open>writeVersion\<close> from a given state of its variables, with the error of
  the poll wrapped as \<^verbatim>\<open>writeVersion\<close> returns it; \<^verbatim>\<open>writeVersion\<close> is this poll from
  the start state.
\<close>

definition writeVersionFrom ::
  "'a Client \<Rightarrow> nat \<Rightarrow> QualifiedName \<Rightarrow> 'a WriteState \<Rightarrow> error option \<times> 'a WriteState" where
  "writeVersionFrom client retries qualifiedName s0 =
     (case PollUntilContextTimeout retries (writeVersionCondition client qualifiedName) s0 of
        (Some e, s) \<Rightarrow> (Some (Wrapped e ''Failed to write the version map to the API''), s)
      | (None, s) \<Rightarrow> (None, s))"

definition writeVersion ::
  "'a Client \<Rightarrow> nat \<Rightarrow> VersionObj \<Rightarrow> QualifiedName \<Rightarrow> 'a \<Rightarrow> error option \<times> 'a WriteState" where
  "writeVersion client retries ob qualifiedName a =
     writeVersionFrom client retries qualifiedName (startWrite ob a)"

section \<open>Update\<close>

text \<open>
  The section of \<^verbatim>\<open>Update\<close> that runs under the lock, given the two versions of the
  resource. It returns the manager, the caller's map as the merge leaves it, and the
  object to write: \<open>None\<close> where the code returns \<^verbatim>\<open>nil\<close> with "No update
  necessary".
\<close>

definition UpdateLocked ::
  "VersionManager \<Rightarrow> VersionedResource \<Rightarrow> string list \<Rightarrow> (string, string) fmap
     \<Rightarrow> string \<Rightarrow> string
     \<Rightarrow> VersionManager \<times> (string, string) fmap \<times> VersionObj option" where
  "UpdateLocked m resource selectedClusters versionMap templateVersion overrideVersion =
     (let qualifiedName = versionQualifiedName m (FederatedName resource);
          key = QualifiedName_String qualifiedName
      in case fmlookup (versions m) key of
           Some ob \<Rightarrow>
             (let oldStatus = GetStatus ob;
                  clusterVersions0 =
                    (if TemplateVersion oldStatus = templateVersion \<and>
                        OverrideVersion oldStatus = overrideVersion
                     then ClusterVersions oldStatus else []);
                  (clusterVersions, versionMap') =
                    updateClusterVersions clusterVersions0 versionMap selectedClusters;
                  status = \<lparr>TemplateVersion = templateVersion,
                            OverrideVersion = overrideVersion,
                            ClusterVersions = clusterVersions\<rparr>
              in if PropagatedVersionStatusEquivalent oldStatus status
                 then (m, versionMap', None)
                 else (let ob' = SetStatus ob status
                       in (m\<lparr>versions := fmupd key ob' (versions m)\<rparr>, versionMap', Some ob')))
         | None \<Rightarrow>
             (let clusterVersions = VersionMapToClusterVersions versionMap;
                  status = \<lparr>TemplateVersion = templateVersion,
                            OverrideVersion = overrideVersion,
                            ClusterVersions = clusterVersions\<rparr>;
                  ob' = NewVersion qualifiedName (vrObject resource) status
              in (m\<lparr>versions := fmupd key ob' (versions m)\<rparr>, versionMap, Some ob')))"

text \<open>
  What a call of \<^verbatim>\<open>Update\<close> leaves behind: the error returned, the manager, the
  caller's version map, the state of the API, and the object handed to
  \<^verbatim>\<open>writeVersion\<close> (\<open>None\<close> when \<^verbatim>\<open>writeVersion\<close> was not called).
\<close>

record 'a UpdateResult =
  resultErr :: "error option"
  resultManager :: VersionManager
  resultVersionMap :: "(string, string) fmap"
  resultApi :: 'a
  resultWrite :: "VersionObj option"

text \<open>
  \<^verbatim>\<open>Update\<close>. The cache holds a pointer to the object that \<^verbatim>\<open>writeVersion\<close>
  receives, so the token that \<^verbatim>\<open>writeVersion\<close> sets on the object is the token of
  the cached object afterwards.
\<close>

definition Update ::
  "'a Client \<Rightarrow> nat \<Rightarrow> VersionManager \<Rightarrow> VersionedResource \<Rightarrow> string list
     \<Rightarrow> (string, string) fmap \<Rightarrow> 'a \<Rightarrow> 'a UpdateResult" where
  "Update client retries m resource selectedClusters versionMap a =
     (case vrTemplateVersion resource of
        Inl e \<Rightarrow>
          \<lparr>resultErr = Some (Wrapped e ''Failed to determine template version''),
           resultManager = m, resultVersionMap = versionMap, resultApi = a,
           resultWrite = None\<rparr>
      | Inr templateVersion \<Rightarrow>
          (case vrOverrideVersion resource of
             Inl e \<Rightarrow>
               \<lparr>resultErr = Some (Wrapped e ''Failed to determine override version''),
                resultManager = m, resultVersionMap = versionMap, resultApi = a,
                resultWrite = None\<rparr>
           | Inr overrideVersion \<Rightarrow>
               (case UpdateLocked m resource selectedClusters versionMap
                       templateVersion overrideVersion of
                  (m', versionMap', None) \<Rightarrow>
                    \<lparr>resultErr = None, resultManager = m', resultVersionMap = versionMap',
                     resultApi = a, resultWrite = None\<rparr>
                | (m', versionMap', Some ob) \<Rightarrow>
                    (case writeVersion client retries ob
                            (versionQualifiedName m (FederatedName resource)) a of
                       (err, s) \<Rightarrow>
                         \<lparr>resultErr = err,
                          resultManager =
                            m'\<lparr>versions := fmupd (versionKey m resource) (writtenObj s)
                                              (versions m')\<rparr>,
                          resultVersionMap = versionMap',
                          resultApi = apiState s,
                          resultWrite = Some ob\<rparr>))))"

text \<open>\<^verbatim>\<open>Delete\<close> drops the cache entry.\<close>

definition Delete :: "VersionManager \<Rightarrow> QualifiedName \<Rightarrow> VersionManager" where
  "Delete m qualifiedName =
     m\<lparr>versions := fmdrop (QualifiedName_String (versionQualifiedName m qualifiedName))
                      (versions m)\<rparr>"

text \<open>
  The record cached for a resource, if any, and the merge as the specification words
  it: the new version map, united with the entries of the old cluster versions (the
  first entry of a cluster, should the old list name it twice) whose cluster is
  selected and has no entry in the new map.
\<close>

definition cachedStatus :: "VersionManager \<Rightarrow> VersionedResource \<Rightarrow> PropagatedVersionStatus option" where
  "cachedStatus m resource = map_option GetStatus (fmlookup (versions m) (versionKey m resource))"

definition mergedVersionMap ::
  "ClusterObjectVersion list \<Rightarrow> string list \<Rightarrow> (string, string) fmap \<Rightarrow> (string, string) fmap" where
  "mergedVersionMap oldVersions selectedClusters newVersionMap =
     fmadd
       (fmfilter (\<lambda>c. c \<in> set selectedClusters \<and> fmlookup newVersionMap c = None)
          (fmap_of_list (map (\<lambda>v. (ClusterName v, Version v)) oldVersions)))
       newVersionMap"


section \<open>A scripted API client\<close>

text \<open>
  A fake store for concrete runs: it answers the calls it receives from a script, one
  answer per call (an error, or the resource version the API assigns), and records
  the calls.
\<close>

datatype Call = CallCreate VersionObj | CallUpdateStatus VersionObj | CallGet string string

record FakeApi =
  answers :: "(error + string) list"
  calls :: "Call list"

definition fakeAnswer :: "FakeApi \<Rightarrow> Call \<Rightarrow> VersionObj \<Rightarrow> (error + VersionObj) \<times> FakeApi" where
  "fakeAnswer a call ob =
     (case answers a of
        [] \<Rightarrow> (Inl (ErrorString ''no answer''), a\<lparr>calls := calls a @ [call]\<rparr>)
      | Inl e # rest \<Rightarrow> (Inl e, \<lparr>answers = rest, calls = calls a @ [call]\<rparr>)
      | Inr rv # rest \<Rightarrow>
          (Inr (ob\<lparr>ResourceVersion := rv\<rparr>), \<lparr>answers = rest, calls = calls a @ [call]\<rparr>))"

definition fakeClient :: "FakeApi Client" where
  "fakeClient =
     \<lparr>clientCreate = (\<lambda>a ob. fakeAnswer a (CallCreate ob) ob),
      clientUpdateStatus = (\<lambda>a ob. fakeAnswer a (CallUpdateStatus ob) ob),
      clientGet = (\<lambda>a ns n. fakeAnswer a (CallGet ns n)
         \<lparr>objName = \<lparr>Namespace = ns, Name = n\<rparr>, ResourceVersion = [],
          OwnerReferences = [],
          Status = \<lparr>TemplateVersion = [], OverrideVersion = [], ClusterVersions = []\<rparr>\<rparr>)\<rparr>"

definition testManager :: VersionManager where
  "testManager =
     \<lparr>targetKind = ''ConfigMap'', federatedKind = ''FederatedConfigMap'',
      namespace = ''ns'', hasSynced = True, versions = fmempty,
      PropagatedVersionName = (\<lambda>kind name. kind @ ''-'' @ name)\<rparr>"

definition testResource :: "string \<Rightarrow> string \<Rightarrow> VersionedResource" where
  "testResource tv ov =
     \<lparr>FederatedName = \<lparr>Namespace = ''ns'', Name = ''cm''\<rparr>,
      vrObject = \<lparr>ownerAPIVersion = ''v1'', ownerKind = ''FederatedConfigMap'',
                  ownerName = ''cm'', ownerUID = ''uid-1''\<rparr>,
      vrTemplateVersion = Inr tv, vrOverrideVersion = Inr ov\<rparr>"

definition testVersionObj :: "string \<Rightarrow> string \<Rightarrow> (string \<times> string) list \<Rightarrow> VersionObj" where
  "testVersionObj tv ov cvs =
     \<lparr>objName = \<lparr>Namespace = ''ns'', Name = ''ConfigMap-cm''\<rparr>, ResourceVersion = ''5'',
      OwnerReferences = [],
      Status = \<lparr>TemplateVersion = tv, OverrideVersion = ov,
                ClusterVersions =
                  map (\<lambda>(c, v). \<lparr>ClusterName = c, Version = v\<rparr>) cvs\<rparr>\<rparr>"

definition testManagerWith :: "VersionObj \<Rightarrow> VersionManager" where
  "testManagerWith ob = testManager\<lparr>versions := fmupd ''ns/ConfigMap-cm'' ob fmempty\<rparr>"

definition exampleVersionMap :: "(string, string) fmap" where
  "exampleVersionMap = fmap_of_list [(''c2'', ''v2''), (''c1'', []), (''c3'', ''v3'')]"

definition scriptedApi :: "(error + string) list \<Rightarrow> FakeApi" where
  "scriptedApi script = \<lparr>answers = script, calls = []\<rparr>"

text \<open>A call in short: its kind, with the token the object carries or the name asked for.\<close>

fun callTrace :: "Call \<Rightarrow> string \<times> string" where
  "callTrace (CallCreate ob) = (''Create'', ResourceVersion ob)"
| "callTrace (CallUpdateStatus ob) = (''UpdateStatus'', ResourceVersion ob)"
| "callTrace (CallGet ns n) = (''Get'', n)"

definition exampleApi :: FakeApi where
  "exampleApi = \<lparr>answers = [Inr ''1'', Inr ''2''], calls = []\<rparr>"

definition failingResource :: VersionedResource where
  "failingResource =
     (testResource ''t1'' ''o1'')\<lparr>vrTemplateVersion := Inl (ErrorString ''no template'')\<rparr>"

definition priorVersionObj :: VersionObj where
  "priorVersionObj = testVersionObj ''t1'' ''o1'' [(''c1'', ''v1''), (''c2'', ''v1'')]"



section \<open>The status controller\<close>

text \<open>
  Objects of the stores are \<^verbatim>\<open>unstructured.Unstructured\<close>: a tree of JSON values
  under string keys. \<^verbatim>\<open>reflect.DeepEqual\<close> on such trees is equality of the values.
\<close>

datatype json =
    JNull
  | JBool bool
  | JNumber int
  | JString string
  | JArray "json list"
  | JObject "(string, json) fmap"

record Unstructured =
  Object :: "(string, json) fmap"

text \<open>Indexing a Go map: a key that is absent reads as \<^verbatim>\<open>nil\<close>.\<close>

definition objectField :: "Unstructured \<Rightarrow> string \<Rightarrow> json" where
  "objectField u field = (case fmlookup (Object u) field of None \<Rightarrow> JNull | Some v \<Rightarrow> v)"

text \<open>
  \<^verbatim>\<open>unstructured.NestedMap(obj, field)\<close> for one field: the map, whether it was
  found, and an error when the field holds something that is not a map.
\<close>

definition NestedMap ::
  "(string, json) fmap \<Rightarrow> string \<Rightarrow> (string, json) fmap option \<times> bool \<times> error option" where
  "NestedMap ob field =
     (case fmlookup ob field of
        None \<Rightarrow> (None, False, None)
      | Some (JObject m) \<Rightarrow> (Some m, True, None)
      | Some _ \<Rightarrow> (None, False, Some (ErrorString ''accessor error'')))"

text \<open>The string accessors of an object: the empty string when the field is no string.\<close>

definition topString :: "Unstructured \<Rightarrow> string \<Rightarrow> string" where
  "topString u field = (case fmlookup (Object u) field of Some (JString x) \<Rightarrow> x | _ \<Rightarrow> [])"

definition metadataString :: "Unstructured \<Rightarrow> string \<Rightarrow> string" where
  "metadataString u field =
     (case fmlookup (Object u) ''metadata'' of
        Some (JObject md) \<Rightarrow> (case fmlookup md field of Some (JString x) \<Rightarrow> x | _ \<Rightarrow> [])
      | _ \<Rightarrow> [])"

definition GetAPIVersion :: "Unstructured \<Rightarrow> string" where
  "GetAPIVersion u = topString u ''apiVersion''"

definition GetKind :: "Unstructured \<Rightarrow> string" where
  "GetKind u = topString u ''kind''"

definition GetName :: "Unstructured \<Rightarrow> string" where
  "GetName u = metadataString u ''name''"

definition GetUID :: "Unstructured \<Rightarrow> string" where
  "GetUID u = metadataString u ''uid''"

record ResourceClusterStatus =
  rcsClusterName :: string
  rcsStatus :: "(string, json) fmap option"

text \<open>
  \<^verbatim>\<open>util.FederatedResource\<close>, the candidate status object before its conversion:
  type and object metadata, and the cluster status list.
\<close>

record FederatedResource =
  frKind :: string
  frAPIVersion :: string
  frName :: string
  frNamespace :: string
  frOwnerReferences :: "OwnerReference list"
  frClusterStatus :: "ResourceClusterStatus list"

record TypeConfig =
  FederatedTypeKind :: string
  StatusTypeKind :: string
  StatusTypeGroup :: string
  StatusTypeVersion :: string
  TargetTypeKind :: string

text \<open>What one run of \<^verbatim>\<open>isSynced\<close> observes of the informers and stores.\<close>

record SyncObservation =
  ClustersSynced :: bool
  FederatedHasSynced :: bool
  StatusHasSynced :: bool
  ReadyClustersError :: "error option"
  TargetClustersSynced :: bool

text \<open>
  The collaborators of the controller. The stores answer \<^verbatim>\<open>GetByKey\<close> with an
  error, or with the object if it exists; \<open>observe k\<close> is what the \<open>k\<close>-th run of
  \<^verbatim>\<open>isSynced\<close> sees, and \<open>syncPolls\<close> the number of further runs that fit into
  \<^verbatim>\<open>cacheSyncTimeout\<close>. \<open>GetUnstructured\<close> stands for \<^verbatim>\<open>util.GetUnstructured\<close>,
  which is not among the sources; \<open>validTimestamp\<close> says whether a string parses as
  a time other than the zero time, for \<^verbatim>\<open>GetDeletionTimestamp\<close>, which is \<^verbatim>\<open>nil\<close>
  for an empty, a \<^verbatim>\<open>null\<close> or an unparsable timestamp. The status client works on the state
  \<open>'w\<close> of the API and takes the namespace and the object.
\<close>

record 'w StatusController =
  typeConfig :: TypeConfig
  observe :: "nat \<Rightarrow> SyncObservation"
  syncPolls :: nat
  federatedStore :: "string \<Rightarrow> error + Unstructured option"
  statusStore :: "string \<Rightarrow> error + Unstructured option"
  GetReadyClusters :: "error + string list"
  targetStore :: "string \<Rightarrow> string \<Rightarrow> error + Unstructured option"
  GetUnstructured :: "FederatedResource \<Rightarrow> error + Unstructured"
  validTimestamp :: "string \<Rightarrow> bool"
  statusCreate :: "'w \<Rightarrow> string \<Rightarrow> Unstructured \<Rightarrow> error option \<times> 'w"
  statusUpdate :: "'w \<Rightarrow> string \<Rightarrow> Unstructured \<Rightarrow> error option \<times> 'w"

definition isSynced :: "SyncObservation \<Rightarrow> bool" where
  "isSynced ob =
     (if \<not> ClustersSynced ob then False
      else if \<not> FederatedHasSynced ob then False
      else if \<not> StatusHasSynced ob then False
      else (case ReadyClustersError ob of
              Some e \<Rightarrow> False
            | None \<Rightarrow> if \<not> TargetClustersSynced ob then False else True))"

definition waitForSync :: "'w StatusController \<Rightarrow> error option" where
  "waitForSync s =
     fst (PollUntilContextTimeout (syncPolls s)
            (\<lambda>k. (if isSynced (observe s k) then ConditionDone else ConditionRetry, Suc k))
            (0::nat))"

definition GetDeletionTimestamp :: "'w StatusController \<Rightarrow> Unstructured \<Rightarrow> string option" where
  "GetDeletionTimestamp s u =
     (let t = metadataString u ''deletionTimestamp''
      in if t \<noteq> [] \<and> t \<noteq> ''null'' \<and> validTimestamp s t then Some t else None)"

definition objFromCache ::
  "(string \<Rightarrow> error + Unstructured option) \<Rightarrow> string \<Rightarrow> error + Unstructured option" where
  "objFromCache store key = store key"

definition clusterNames :: "'w StatusController \<Rightarrow> error + string list" where
  "clusterNames s =
     (case GetReadyClusters s of
        Inl e \<Rightarrow> Inl e
      | Inr clusters \<Rightarrow> Inr (foldl (\<lambda>names cluster. names @ [cluster]) [] clusters))"

text \<open>
  The loop of \<^verbatim>\<open>clusterStatuses\<close>, with the list built so far: a failing lookup
  returns the wrapped error at once; otherwise the cluster gets an entry, whose status
  is what \<^verbatim>\<open>NestedMap\<close> returned for an object that exists, and \<^verbatim>\<open>nil\<close> for one that
  does not.
\<close>

fun clusterStatusesLoop ::
  "(string \<Rightarrow> string \<Rightarrow> error + Unstructured option) \<Rightarrow> string \<Rightarrow> string list
     \<Rightarrow> ResourceClusterStatus list \<Rightarrow> error + ResourceClusterStatus list" where
  "clusterStatusesLoop store key [] clusterStatus = Inr clusterStatus"
| "clusterStatusesLoop store key (clusterName # rest) clusterStatus =
     (case store clusterName key of
        Inl e \<Rightarrow> Inl (Wrapped e ''Failed to get object from cluster'')
      | Inr clusterObj \<Rightarrow>
          (let status =
                 (case clusterObj of
                    None \<Rightarrow> None
                  | Some ob \<Rightarrow> fst (NestedMap (Object ob) ''status''))
           in clusterStatusesLoop store key rest
                (clusterStatus @ [\<lparr>rcsClusterName = clusterName, rcsStatus = status\<rparr>])))"

definition clusterStatuses ::
  "'w StatusController \<Rightarrow> string list \<Rightarrow> string \<Rightarrow> error + ResourceClusterStatus list" where
  "clusterStatuses s names key =
     (case clusterStatusesLoop (targetStore s) key names [] of
        Inl e \<Rightarrow> Inl e
      | Inr clusterStatus \<Rightarrow> Inr (sort_key rcsClusterName clusterStatus))"

text \<open>
  What a call of \<^verbatim>\<open>reconcile\<close> ends in: it returns a status, or \<^verbatim>\<open>klog.Fatalf\<close> logs
  and ends the process with exit code 255.
\<close>

datatype ReconciliationStatus = StatusAllOK | StatusNeedsRecheck | StatusError | StatusNotSynced

datatype ReconcileOutcome = Returned ReconciliationStatus | ProcessExit nat

definition GroupVersion_String :: "string \<Rightarrow> string \<Rightarrow> string" where
  "GroupVersion_String g v = (if g \<noteq> [] then g @ ''/'' @ v else v)"

text \<open>
  The last step of \<^verbatim>\<open>reconcile\<close>: create the status object when none is persisted;
  otherwise compare the \<^verbatim>\<open>clusterStatus\<close> fields and, when they differ, write the
  computed field (an empty list when it is \<^verbatim>\<open>nil\<close>) into the existing object and
  update that.
\<close>

definition writeStatus ::
  "'w StatusController \<Rightarrow> 'w \<Rightarrow> QualifiedName \<Rightarrow> Unstructured option \<Rightarrow> Unstructured
     \<Rightarrow> ReconcileOutcome \<times> 'w" where
  "writeStatus s w qualifiedName existingStatus status =
     (case existingStatus of
        None \<Rightarrow>
          (case statusCreate s w (Namespace qualifiedName) status of
             (Some e, w') \<Rightarrow> (Returned StatusNeedsRecheck, w')
           | (None, w') \<Rightarrow> (Returned StatusAllOK, w'))
      | Some existing \<Rightarrow>
          if objectField existing ''clusterStatus'' \<noteq> objectField status ''clusterStatus''
          then
            (let status' =
                   (if objectField status ''clusterStatus'' = JNull
                    then status\<lparr>Object := fmupd ''clusterStatus'' (JArray []) (Object status)\<rparr>
                    else status);
                 existing' =
                   existing\<lparr>Object := fmupd ''clusterStatus''
                                         (objectField status' ''clusterStatus'') (Object existing)\<rparr>
             in case statusUpdate s w (Namespace qualifiedName) existing' of
                  (Some e, w') \<Rightarrow> (Returned StatusNeedsRecheck, w')
                | (None, w') \<Rightarrow> (Returned StatusAllOK, w'))
          else (Returned StatusAllOK, w))"

text \<open>
  The candidate status object that \<^verbatim>\<open>reconcile\<close> builds: named as the federated
  resource, of the status type, owned by the federated object, with the cluster
  statuses computed.
\<close>

definition candidateResource ::
  "'w StatusController \<Rightarrow> QualifiedName \<Rightarrow> Unstructured \<Rightarrow> ResourceClusterStatus list
     \<Rightarrow> FederatedResource" where
  "candidateResource s qualifiedName fedObject clusterStatus =
     \<lparr>frKind = StatusTypeKind (typeConfig s),
      frAPIVersion =
        GroupVersion_String (StatusTypeGroup (typeConfig s)) (StatusTypeVersion (typeConfig s)),
      frName = Name qualifiedName,
      frNamespace = Namespace qualifiedName,
      frOwnerReferences =
        [\<lparr>ownerAPIVersion = GetAPIVersion fedObject, ownerKind = GetKind fedObject,
          ownerName = GetName fedObject, ownerUID = GetUID fedObject\<rparr>],
      frClusterStatus = clusterStatus\<rparr>"

definition reconcile ::
  "'w StatusController \<Rightarrow> 'w \<Rightarrow> QualifiedName \<Rightarrow> ReconcileOutcome \<times> 'w" where
  "reconcile s w qualifiedName =
     (case waitForSync s of
        Some e \<Rightarrow> (ProcessExit 255, w)
      | None \<Rightarrow>
          (let key = QualifiedName_String qualifiedName in
           case objFromCache (federatedStore s) key of
             Inl e \<Rightarrow> (Returned StatusError, w)
           | Inr None \<Rightarrow> (Returned StatusAllOK, w)
           | Inr (Some fedObject) \<Rightarrow>
               if GetDeletionTimestamp s fedObject \<noteq> None then (Returned StatusAllOK, w)
               else
                 (case clusterNames s of
                    Inl e \<Rightarrow> (Returned StatusNotSynced, w)
                  | Inr names \<Rightarrow>
                      (case clusterStatuses s names key of
                         Inl e \<Rightarrow> (Returned StatusError, w)
                       | Inr clusterStatus \<Rightarrow>
                           (case objFromCache (statusStore s) key of
                              Inl e \<Rightarrow> (Returned StatusError, w)
                            | Inr existingStatus \<Rightarrow>
                                (case GetUnstructured s
                                        (candidateResource s qualifiedName fedObject
                                           clusterStatus) of
                                   Inl e \<Rightarrow> (Returned StatusError, w)
                                 | Inr status \<Rightarrow>
                                     writeStatus s w qualifiedName existingStatus status))))))"

text \<open>
  The entry of a cluster as the specification words it: the \<^verbatim>\<open>status\<close> map of the
  cluster's target object, and \<^verbatim>\<open>nil\<close> when the object is absent from the cache or
  has no map under \<^verbatim>\<open>status\<close>.
\<close>

definition clusterEntry ::
  "(string \<Rightarrow> string \<Rightarrow> error + Unstructured option) \<Rightarrow> string \<Rightarrow> string
     \<Rightarrow> ResourceClusterStatus" where
  "clusterEntry store key clusterName =
     \<lparr>rcsClusterName = clusterName,
      rcsStatus =
        (case store clusterName key of
           Inr (Some ob) \<Rightarrow>
             (case fmlookup (Object ob) ''status'' of Some (JObject m) \<Rightarrow> Some m | _ \<Rightarrow> None)
         | _ \<Rightarrow> None)\<rparr>"

text \<open>
  The controller once the status store holds a given object under a key, as it does
  when the informer has delivered an object that was written.
\<close>

definition withPersisted ::
  "'w StatusController \<Rightarrow> string \<Rightarrow> Unstructured \<Rightarrow> 'w StatusController" where
  "withPersisted s key ob =
     s\<lparr>statusStore := (\<lambda>k. if k = key then Inr (Some ob) else statusStore s k)\<rparr>"

section \<open>A controller for concrete runs\<close>

text \<open>
  A status client that records what it is asked to write, and a conversion of the
  candidate status object to JSON that leaves an empty cluster status list out.
\<close>

datatype StatusWrite = Created string Unstructured | Updated string Unstructured

definition clusterStatusJson :: "ResourceClusterStatus \<Rightarrow> json" where
  "clusterStatusJson c =
     JObject (fmap_of_list
       ((''clusterName'', JString (rcsClusterName c)) #
        (case rcsStatus c of None \<Rightarrow> [] | Some m \<Rightarrow> [(''status'', JObject m)])))"

definition exampleGetUnstructured :: "FederatedResource \<Rightarrow> error + Unstructured" where
  "exampleGetUnstructured r =
     Inr \<lparr>Object = fmap_of_list
       ([(''kind'', JString (frKind r)), (''apiVersion'', JString (frAPIVersion r)),
         (''metadata'', JObject (fmap_of_list
            [(''name'', JString (frName r)), (''namespace'', JString (frNamespace r))]))] @
        (if frClusterStatus r = [] then []
         else [(''clusterStatus'', JArray (map clusterStatusJson (frClusterStatus r)))]))\<rparr>"

definition syncedObservation :: SyncObservation where
  "syncedObservation =
     \<lparr>ClustersSynced = True, FederatedHasSynced = True, StatusHasSynced = True,
      ReadyClustersError = None, TargetClustersSynced = True\<rparr>"

definition alwaysSynced :: "nat \<Rightarrow> SyncObservation" where
  "alwaysSynced k = syncedObservation"

definition neverSynced :: "nat \<Rightarrow> SyncObservation" where
  "neverSynced k = syncedObservation\<lparr>StatusHasSynced := False\<rparr>"

definition exampleFederatedObject :: Unstructured where
  "exampleFederatedObject =
     \<lparr>Object = fmap_of_list
        [(''kind'', JString ''FederatedConfigMap''), (''apiVersion'', JString ''types/v1beta1''),
         (''metadata'', JObject (fmap_of_list
            [(''name'', JString ''cm''), (''namespace'', JString ''ns''),
             (''uid'', JString ''uid-1'')]))]\<rparr>"

definition runningObject :: Unstructured where
  "runningObject =
     \<lparr>Object = fmap_of_list
        [(''kind'', JString ''ConfigMap''),
         (''status'', JObject (fmap_of_list [(''phase'', JString ''Running'')]))]\<rparr>"

definition brokenObject :: Unstructured where
  "brokenObject =
     \<lparr>Object = fmap_of_list [(''kind'', JString ''ConfigMap''), (''status'', JString ''bad'')]\<rparr>"

text \<open>
  The target store of the example: cluster \<open>c1\<close> holds an object with a status,
  \<open>c2\<close> holds none, the object of \<open>c3\<close> has a status that is no map, and the lookup
  in any other cluster fails.
\<close>

definition exampleTargetStore :: "string \<Rightarrow> string \<Rightarrow> error + Unstructured option" where
  "exampleTargetStore clusterName key =
     (if clusterName = ''c1'' then Inr (Some runningObject)
      else if clusterName = ''c2'' then Inr None
      else if clusterName = ''c3'' then Inr (Some brokenObject)
      else Inl (ErrorString ''no store for the cluster''))"

definition exampleController ::
  "(nat \<Rightarrow> SyncObservation) \<Rightarrow> string list \<Rightarrow> Unstructured option
     \<Rightarrow> StatusWrite list StatusController" where
  "exampleController obs ready existing =
     \<lparr>typeConfig =
        \<lparr>FederatedTypeKind = ''FederatedConfigMap'', StatusTypeKind = ''FederatedConfigMapStatus'',
         StatusTypeGroup = ''types'', StatusTypeVersion = ''v1beta1'',
         TargetTypeKind = ''ConfigMap''\<rparr>,
      observe = obs,
      syncPolls = 2,
      federatedStore = (\<lambda>key. if key = ''ns/cm'' then Inr (Some exampleFederatedObject) else Inr None),
      statusStore = (\<lambda>key. if key = ''ns/cm'' then Inr existing else Inr None),
      GetReadyClusters = Inr ready,
      targetStore = exampleTargetStore,
      GetUnstructured = exampleGetUnstructured,
      validTimestamp = (\<lambda>t. t = ''2024-05-01T10:00:00Z''),
      statusCreate = (\<lambda>w ns ob. (None, w @ [Created ns ob])),
      statusUpdate = (\<lambda>w ns ob. (None, w @ [Updated ns ob]))\<rparr>"

definition exampleKey :: QualifiedName where
  "exampleKey = \<lparr>Namespace = ''ns'', Name = ''cm''\<rparr>"

text \<open>
  A persisted status object with fields of other writers: the cluster statuses of
  \<open>c1\<close> alone, and a label.
\<close>

definition persistedStatus :: "json \<Rightarrow> Unstructured" where
  "persistedStatus clusterStatus =
     \<lparr>Object = fmap_of_list
        [(''kind'', JString ''FederatedConfigMapStatus''),
         (''metadata'', JObject (fmap_of_list
            [(''name'', JString ''cm''), (''labels'', JObject (fmap_of_list
               [(''owner'', JString ''admission'')]))])),
         (''clusterStatus'', clusterStatus)]\<rparr>"

definition runningClusterStatus :: json where
  "runningClusterStatus =
     JArray [JObject (fmap_of_list
       [(''clusterName'', JString ''c1''),
        (''status'', JObject (fmap_of_list [(''phase'', JString ''Running'')]))])]"




definition emptyStatusController :: "StatusWrite list StatusController" where
  "emptyStatusController = exampleController alwaysSynced [] (Some (persistedStatus (JArray [])))"

text \<open>A cluster version as the pair that a version map holds for it.\<close>

definition versionPair :: "ClusterObjectVersion \<Rightarrow> string \<times> string" where
  "versionPair = (\<lambda>v. (ClusterName v, Version v))"

section \<open>Properties of cluster version lists\<close>

lemma map_fst_sorted_list_of_fmap:
  "map fst (sorted_list_of_fmap m) = sorted_list_of_fset (fmdom m)"
  by (simp add: sorted_list_of_fmap_def comp_def)

lemma distinct_sorted_list_of_fmap: "distinct (map fst (sorted_list_of_fmap m))"
  by (simp add: map_fst_sorted_list_of_fmap sorted_list_of_fset.rep_eq)

lemma set_sorted_list_of_fmap:
  "set (sorted_list_of_fmap m) = {(k, v). fmlookup m k = Some v}"
  by (auto simp: sorted_list_of_fmap_def fmlookup_dom_iff)

lemma map_ClusterName_appendVersions:
  "map ClusterName (appendVersions es) = map fst (filter (\<lambda>(c, v). v \<noteq> []) es)"
  by (induction es) (auto simp: appendVersions_def)

lemma map_versionPair_appendVersions:
  "map versionPair (appendVersions es) = filter (\<lambda>(c, v). v \<noteq> []) es"
  by (induction es) (auto simp: appendVersions_def versionPair_def)

lemma distinct_ClusterName_appendVersions:
  "distinct (map fst es) \<Longrightarrow> distinct (map ClusterName (appendVersions es))"
  by (simp add: map_ClusterName_appendVersions distinct_map_filter)

lemma sort_key_unique:
  fixes f :: "'a \<Rightarrow> 'k::linorder"
  assumes "distinct (map f xs)" "distinct (map f ys)" "set xs = set ys"
  shows "sort_key f xs = sort_key f ys"
proof -
  have inj: "inj_on f (set xs)" using assms(1) by (simp add: distinct_map)
  have "map f (sort_key f xs) = map f (sort_key f ys)"
  proof (rule sorted_distinct_set_unique)
    show "sorted (map f (sort_key f xs))" by simp
    show "sorted (map f (sort_key f ys))" by simp
    show "distinct (map f (sort_key f xs))"
      using assms(1) by (simp add: distinct_map)
    show "distinct (map f (sort_key f ys))"
      using assms(2) by (simp add: distinct_map)
    show "set (map f (sort_key f xs)) = set (map f (sort_key f ys))"
      using assms(3) by simp
  qed
  moreover have "inj_on f (set (sort_key f xs) \<union> set (sort_key f ys))"
    using inj assms(3) by simp
  ultimately show ?thesis by (simp add: inj_on_map_eq_map)
qed

lemma VersionMapToClusterVersions_any_order:
  assumes "distinct (map fst es)" "set es = {(k, v). fmlookup versionMap k = Some v}"
  shows "SortClusterVersions (appendVersions es) = VersionMapToClusterVersions versionMap"
  unfolding VersionMapToClusterVersions_def SortClusterVersions_def
proof (rule sort_key_unique)
  show "distinct (map ClusterName (appendVersions es))"
    using assms(1) by (rule distinct_ClusterName_appendVersions)
  show "distinct (map ClusterName (appendVersions (sorted_list_of_fmap versionMap)))"
    by (rule distinct_ClusterName_appendVersions) (rule distinct_sorted_list_of_fmap)
  show "set (appendVersions es) = set (appendVersions (sorted_list_of_fmap versionMap))"
    using assms(2) by (simp add: appendVersions_def set_sorted_list_of_fmap)
qed

lemma distinct_VersionMapToClusterVersions:
  "distinct (map ClusterName (VersionMapToClusterVersions vm))"
  by (simp add: VersionMapToClusterVersions_def SortClusterVersions_def distinct_map
      distinct_ClusterName_appendVersions[OF distinct_sorted_list_of_fmap, unfolded distinct_map])

lemma sorted_VersionMapToClusterVersions:
  "sorted (map ClusterName (VersionMapToClusterVersions vm))"
  by (simp add: VersionMapToClusterVersions_def SortClusterVersions_def)

lemma set_VersionMapToClusterVersions:
  "set (VersionMapToClusterVersions vm) =
     {\<lparr>ClusterName = c, Version = v\<rparr> | c v. fmlookup vm c = Some v \<and> v \<noteq> []}"
  by (auto simp: VersionMapToClusterVersions_def SortClusterVersions_def appendVersions_def
      set_sorted_list_of_fmap)

lemma map_of_VersionMapToClusterVersions:
  "map_of (map versionPair (VersionMapToClusterVersions vm)) c =
     (if fmlookup vm c = Some [] then None else fmlookup vm c)"
proof -
  have d: "distinct (map fst (map versionPair (VersionMapToClusterVersions vm)))"
    using distinct_VersionMapToClusterVersions[of vm] by (simp add: comp_def versionPair_def)
  have s: "set (map versionPair (VersionMapToClusterVersions vm)) =
      {(c, v). fmlookup vm c = Some v \<and> v \<noteq> []}"
    by (force simp: set_VersionMapToClusterVersions versionPair_def image_iff)
  show ?thesis
  proof (cases "map_of (map versionPair (VersionMapToClusterVersions vm)) c")
    case None
    then have "\<forall>v. (c, v) \<notin> set (map versionPair (VersionMapToClusterVersions vm))"
      using map_of_eq_Some_iff[OF d] by (metis option.distinct(1))
    then show ?thesis using None s by (cases "fmlookup vm c") auto
  next
    case (Some v)
    then have "(c, v) \<in> set (map versionPair (VersionMapToClusterVersions vm))"
      using map_of_eq_Some_iff[OF d] by simp
    then show ?thesis using Some s by auto
  qed
qed

lemma fmlookup_clusterVersionsToMap:
  "distinct (map ClusterName vs) \<Longrightarrow>
   fmlookup (clusterVersionsToMap vs m0) c =
     (case map_of (map versionPair vs) c of None \<Rightarrow> fmlookup m0 c | Some v \<Rightarrow> Some v)"
proof (induction vs arbitrary: m0)
  case Nil
  then show ?case by (simp add: clusterVersionsToMap_def)
next
  case (Cons v vs)
  have notin: "ClusterName v \<notin> ClusterName ` set vs" using Cons.prems by simp
  have none: "map_of (map versionPair vs) (ClusterName v) = None"
    using notin by (force simp: map_of_eq_None_iff versionPair_def image_iff)
  have "fmlookup (clusterVersionsToMap (v # vs) m0) c =
        fmlookup (clusterVersionsToMap vs (fmupd (ClusterName v) (Version v) m0)) c"
    by (simp add: clusterVersionsToMap_def)
  also have "\<dots> = (case map_of (map versionPair vs) c of
                     None \<Rightarrow> fmlookup (fmupd (ClusterName v) (Version v) m0) c
                   | Some v' \<Rightarrow> Some v')"
    using Cons.IH Cons.prems by simp
  finally show ?case using none by (simp add: versionPair_def split: option.splits)
qed

lemma clusterVersionsToMap_VersionMapToClusterVersions:
  "clusterVersionsToMap (VersionMapToClusterVersions vm) fmempty =
     fmfilter (\<lambda>c. fmlookup vm c \<noteq> Some []) vm"
  by (rule fmap_ext)
     (simp add: fmlookup_clusterVersionsToMap[OF distinct_VersionMapToClusterVersions]
        map_of_VersionMapToClusterVersions split: option.splits)

section \<open>The durable write keeps the record\<close>

lemma refreshSection_writtenObj:
  "refreshSection client qn s = (r, s') \<Longrightarrow> writtenObj s' = writtenObj s"
  by (auto simp: refreshSection_def split: if_splits prod.splits option.splits)

lemma createSection_writtenObj:
  "createSection client s = (r, s') \<Longrightarrow> writtenObj s' = writtenObj s"
  by (auto simp: createSection_def Let_def split: if_splits prod.splits sum.splits)

lemma updateSection_writtenObj:
  "updateSection client s = (r, s') \<Longrightarrow>
     writtenObj s' = writtenObj s \<or>
     (\<exists>rv. writtenObj s' = (writtenObj s)\<lparr>ResourceVersion := rv\<rparr>)"
  by (auto simp: updateSection_def Let_def split: if_splits prod.splits sum.splits)

lemma writeVersionCondition_Status:
  "writeVersionCondition client qn s = (r, s') \<Longrightarrow> Status (writtenObj s') = Status (writtenObj s)"
  unfolding writeVersionCondition_def
  by (auto split: prod.splits option.splits
      dest!: refreshSection_writtenObj createSection_writtenObj updateSection_writtenObj)

lemma PollUntilContextTimeout_Status:
  assumes "\<And>s r s'. condition s = (r, s') \<Longrightarrow> Status (writtenObj s') = Status (writtenObj s)"
  shows "PollUntilContextTimeout n condition s = (e, s') \<Longrightarrow>
     Status (writtenObj s') = Status (writtenObj s)"
proof (induction n arbitrary: s)
  case 0
  then show ?case using assms
    by (auto split: prod.splits ConditionResult.splits)
next
  case (Suc n)
  obtain r s1 where c: "condition s = (r, s1)" by (cases "condition s")
  have s1: "Status (writtenObj s1) = Status (writtenObj s)" using assms c by blast
  show ?case
  proof (cases r)
    case ConditionRetry
    then have "PollUntilContextTimeout n condition s1 = (e, s')" using Suc.prems c by simp
    then show ?thesis using Suc.IH s1 by simp
  qed (use Suc.prems c s1 in auto)
qed

lemma writeVersion_Status:
  "writeVersion client retries ob qn a = (e, s) \<Longrightarrow> Status (writtenObj s) = Status ob"
  unfolding writeVersion_def writeVersionFrom_def
  by (auto simp: startWrite_def split: prod.splits option.splits
      dest!: PollUntilContextTimeout_Status[OF writeVersionCondition_Status, rotated -1])

section \<open>Round trip of the version manager\<close>

lemma UpdateLocked_params:
  "UpdateLocked m R sel V tv ov = (m', V', w) \<Longrightarrow>
     PropagatedVersionName m' = PropagatedVersionName m \<and> targetKind m' = targetKind m"
  by (auto simp: UpdateLocked_def Let_def split: option.splits prod.splits if_splits)

lemma versionKey_cong:
  "PropagatedVersionName m' = PropagatedVersionName m \<Longrightarrow> targetKind m' = targetKind m \<Longrightarrow>
   FederatedName R' = FederatedName R \<Longrightarrow> versionKey m' R' = versionKey m R"
  by (simp add: versionKey_def versionQualifiedName_def)

lemma Update_params:
  "PropagatedVersionName (resultManager (Update client retries m R sel V a)) = PropagatedVersionName m \<and>
   targetKind (resultManager (Update client retries m R sel V a)) = targetKind m"
  by (auto simp: Update_def split: sum.splits option.splits prod.splits dest: UpdateLocked_params)

lemma Update_empty_cache:
  assumes "fmlookup (versions m) (versionKey m R) = None"
    and "vrTemplateVersion R = Inr tv" and "vrOverrideVersion R = Inr ov"
  shows "\<exists>ob. fmlookup (versions (resultManager (Update client retries m R sel V a))) (versionKey m R) = Some ob
      \<and> Status ob = \<lparr>TemplateVersion = tv, OverrideVersion = ov,
                       ClusterVersions = VersionMapToClusterVersions V\<rparr>"
proof -
  let ?qn = "versionQualifiedName m (FederatedName R)"
  let ?st = "\<lparr>TemplateVersion = tv, OverrideVersion = ov,
                       ClusterVersions = VersionMapToClusterVersions V\<rparr>"
  let ?ob = "NewVersion ?qn (vrObject R) ?st"
  have L: "UpdateLocked m R sel V tv ov =
      (m\<lparr>versions := fmupd (versionKey m R) ?ob (versions m)\<rparr>, V, Some ?ob)"
    using assms(1) by (simp add: UpdateLocked_def Let_def versionKey_def)
  obtain e s where W: "writeVersion client retries ?ob ?qn a = (e, s)"
    by (cases "writeVersion client retries ?ob ?qn a")
  have "Status (writtenObj s) = ?st"
    using writeVersion_Status[OF W] by (simp add: NewVersion_def)
  moreover have "fmlookup (versions (resultManager (Update client retries m R sel V a))) (versionKey m R)
      = Some (writtenObj s)"
    by (simp add: Update_def assms(2,3) L W)
  ultimately show ?thesis by blast
qed

text \<open>
  Claim C1. Starting from an empty cache, for a resource whose template and override
  versions are \<open>tv\<close> and \<open>ov\<close>, \<^verbatim>\<open>Get\<close> after \<^verbatim>\<open>Update\<close> with any cluster list and
  any version map \<open>V\<close> returns exactly \<open>V\<close> restricted to the clusters whose version
  is not the empty string, whatever the durable write did; a cluster whose version in
  \<open>V\<close> is the empty string has no entry there; and for the resource with another
  template version \<^verbatim>\<open>Get\<close> returns the empty map.
\<close>

theorem Get_after_Update_roundtrip:
  assumes "versions m = fmempty"
    and "vrTemplateVersion R = Inr tv" and "vrOverrideVersion R = Inr ov"
  shows "Get (resultManager (Update client retries m R clusters V a)) R =
           Inr (fmfilter (\<lambda>c. fmlookup V c \<noteq> Some []) V)
       \<and> (\<forall>c. fmlookup V c = Some [] \<longrightarrow>
             fmlookup (fmfilter (\<lambda>c. fmlookup V c \<noteq> Some []) V) c = None)
       \<and> (\<forall>R' tv' ov'. FederatedName R' = FederatedName R \<and> vrTemplateVersion R' = Inr tv' \<and>
             tv' \<noteq> tv \<and> vrOverrideVersion R' = Inr ov' \<longrightarrow>
             Get (resultManager (Update client retries m R clusters V a)) R' = Inr fmempty)"
proof -
  let ?m' = "resultManager (Update client retries m R clusters V a)"
  have none: "fmlookup (versions m) (versionKey m R) = None" using assms(1) by simp
  obtain ob where ob: "fmlookup (versions ?m') (versionKey m R) = Some ob"
    and st: "Status ob = \<lparr>TemplateVersion = tv, OverrideVersion = ov,
                       ClusterVersions = VersionMapToClusterVersions V\<rparr>"
    using Update_empty_cache[OF none assms(2,3), of client retries clusters V a] by blast
  have key: "\<And>R'. FederatedName R' = FederatedName R \<Longrightarrow> versionKey ?m' R' = versionKey m R"
    using Update_params[of client retries m R clusters V a] by (intro versionKey_cong) simp_all
  have 1: "Get ?m' R = Inr (fmfilter (\<lambda>c. fmlookup V c \<noteq> Some []) V)"
    by (simp add: Get_def key ob GetStatus_def st assms(2,3)
        clusterVersionsToMap_VersionMapToClusterVersions)
  have 3: "Get ?m' R' = Inr fmempty"
    if "FederatedName R' = FederatedName R" "vrTemplateVersion R' = Inr tv'" "tv' \<noteq> tv"
       "vrOverrideVersion R' = Inr ov'" for R' tv' ov'
    using that by (simp add: Get_def key ob GetStatus_def st)
  show ?thesis using 1 3 by simp
qed

lemma exampleVersionMap_nonempty:
  "fmfilter (\<lambda>c. fmlookup exampleVersionMap c \<noteq> Some []) exampleVersionMap
     = fmap_of_list [(''c2'', ''v2''), (''c3'', ''v3'')]"
  by code_simp

theorem Get_after_Update_roundtrip_witness:
  "Get (resultManager (Update fakeClient 3 testManager (testResource ''t1'' ''o1'') [''c1'', ''c2'']
          exampleVersionMap exampleApi))
       (testResource ''t1'' ''o1'')
     = Inr (fmap_of_list [(''c2'', ''v2''), (''c3'', ''v3'')])
   \<and> Get (resultManager (Update fakeClient 3 testManager (testResource ''t1'' ''o1'') [''c1'', ''c2'']
          exampleVersionMap exampleApi))
       (testResource ''t2'' ''o1'')
     = Inr fmempty"
proof -
  have v: "versions testManager = fmempty" by (simp add: testManager_def)
  have t: "vrTemplateVersion (testResource ''t1'' ''o1'') = Inr ''t1''"
    and o: "vrOverrideVersion (testResource ''t1'' ''o1'') = Inr ''o1''"
    by (simp_all add: testResource_def)
  note W = Get_after_Update_roundtrip[OF v t o, of fakeClient 3 "[''c1'', ''c2'']"
        exampleVersionMap exampleApi]
  have h: "FederatedName (testResource ''t2'' ''o1'') = FederatedName (testResource ''t1'' ''o1'') \<and>
           vrTemplateVersion (testResource ''t2'' ''o1'') = Inr ''t2'' \<and> ''t2'' \<noteq> ''t1'' \<and>
           vrOverrideVersion (testResource ''t2'' ''o1'') = Inr ''o1''"
    by (simp add: testResource_def)
  show ?thesis
    using W[THEN conjunct1] W[THEN conjunct2, THEN conjunct2, rule_format, OF h]
    by (simp only: exampleVersionMap_nonempty simp_thms)
qed

section \<open>Merging old and new versions\<close>

lemma fmlookup_retainVersions:
  "fmlookup (retainVersions sel olds V) c =
     (case fmlookup V c of
        Some v \<Rightarrow> Some v
      | None \<Rightarrow> if c \<in> set sel then map_of (map versionPair olds) c else None)"
proof (induction olds arbitrary: V)
  case Nil
  then show ?case by (simp split: option.splits)
next
  case (Cons old olds)
  show ?case
    by (simp add: Cons.IH versionPair_def split: option.splits)
qed

lemma retainVersions_mergedVersionMap:
  "retainVersions sel olds V = mergedVersionMap olds sel V"
  by (rule fmap_ext)
     (auto simp: fmlookup_retainVersions mergedVersionMap_def fmlookup_of_list versionPair_def
        fmlookup_dom_iff split: option.splits)

lemma VersionMapToClusterVersions_cong:
  assumes "\<And>c. (if fmlookup m c = Some [] then None else fmlookup m c) =
                (if fmlookup m' c = Some [] then None else fmlookup m' c)"
  shows "VersionMapToClusterVersions m = VersionMapToClusterVersions m'"
  unfolding VersionMapToClusterVersions_def SortClusterVersions_def
proof (rule sort_key_unique)
  show "distinct (map ClusterName (appendVersions (sorted_list_of_fmap m)))"
    by (rule distinct_ClusterName_appendVersions) (rule distinct_sorted_list_of_fmap)
  show "distinct (map ClusterName (appendVersions (sorted_list_of_fmap m')))"
    by (rule distinct_ClusterName_appendVersions) (rule distinct_sorted_list_of_fmap)
  have "fmlookup m c = Some v \<and> v \<noteq> [] \<longleftrightarrow> fmlookup m' c = Some v \<and> v \<noteq> []" for c v
    using assms[of c] by (auto split: if_splits)
  then show "set (appendVersions (sorted_list_of_fmap m)) =
        set (appendVersions (sorted_list_of_fmap m'))"
    using set_VersionMapToClusterVersions[of m] set_VersionMapToClusterVersions[of m']
    by (simp add: VersionMapToClusterVersions_def SortClusterVersions_def)
qed


lemma VersionMapToClusterVersions_retain_none:
  "VersionMapToClusterVersions (retainVersions sel (VersionMapToClusterVersions V) V) =
   VersionMapToClusterVersions V"
  by (rule VersionMapToClusterVersions_cong)
     (auto simp: fmlookup_retainVersions map_of_VersionMapToClusterVersions split: option.splits)


text \<open>The new status that Update computes for an existing record.\<close>

lemma UpdateLocked_existing:
  fixes tv ov :: string and sel :: "string list" and V :: "(string, string) fmap"
  assumes "fmlookup (versions m) (versionKey m R) = Some ob"
  defines "olds \<equiv> (if TemplateVersion (Status ob) = tv \<and> OverrideVersion (Status ob) = ov
                    then ClusterVersions (Status ob) else [])"
  defines "st \<equiv> \<lparr>TemplateVersion = tv, OverrideVersion = ov,
                  ClusterVersions = VersionMapToClusterVersions (retainVersions sel olds V)\<rparr>"
  shows "UpdateLocked m R sel V tv ov =
     (if Status ob = st then (m, retainVersions sel olds V, None)
      else (m\<lparr>versions := fmupd (versionKey m R) (ob\<lparr>Status := st\<rparr>) (versions m)\<rparr>,
            retainVersions sel olds V, Some (ob\<lparr>Status := st\<rparr>)))"
proof -
  have eq: "PropagatedVersionStatusEquivalent (Status ob) st \<longleftrightarrow> Status ob = st"
    by (auto simp: PropagatedVersionStatusEquivalent_def st_def)
  show ?thesis
    using assms(1) eq
    by (simp add: UpdateLocked_def Let_def versionKey_def GetStatus_def SetStatus_def
        updateClusterVersions_def olds_def st_def)
qed

lemma Update_existing:
  fixes tv ov :: string and sel :: "string list" and V :: "(string, string) fmap"
    and client :: "'a Client" and retries :: nat and a :: 'a
  assumes "fmlookup (versions m) (versionKey m R) = Some ob"
    and "vrTemplateVersion R = Inr tv" and "vrOverrideVersion R = Inr ov"
  defines "olds \<equiv> (if TemplateVersion (Status ob) = tv \<and> OverrideVersion (Status ob) = ov
                    then ClusterVersions (Status ob) else [])"
  defines "st \<equiv> \<lparr>TemplateVersion = tv, OverrideVersion = ov,
                  ClusterVersions = VersionMapToClusterVersions (retainVersions sel olds V)\<rparr>"
  defines "r \<equiv> Update client retries m R sel V a"
  shows "cachedStatus (resultManager r) R = Some st"
    and "resultVersionMap r = retainVersions sel olds V"
    and "resultWrite r = (if Status ob = st then None else Some (ob\<lparr>Status := st\<rparr>))"
    and "Status ob = st \<Longrightarrow> resultErr r = None \<and> resultApi r = a \<and> resultManager r = m"
proof -
  note L = UpdateLocked_existing[OF assms(1), where tv=tv and ov=ov and sel=sel and V=V,
      folded olds_def, folded st_def]
  have key: "versionKey (resultManager r) R = versionKey m R"
    unfolding r_def using Update_params[of client retries m R sel V a]
    by (intro versionKey_cong) simp_all
  show "cachedStatus (resultManager r) R = Some st"
  proof (cases "Status ob = st")
    case True
    then show ?thesis
      using assms(1) by (simp add: cachedStatus_def r_def Update_def assms(2,3) L GetStatus_def)
  next
    case False
    obtain e s where W: "writeVersion client retries (ob\<lparr>Status := st\<rparr>)
        (versionQualifiedName m (FederatedName R)) a = (e, s)"
      by (cases "writeVersion client retries (ob\<lparr>Status := st\<rparr>)
        (versionQualifiedName m (FederatedName R)) a")
    have "Status (writtenObj s) = st" using writeVersion_Status[OF W] by simp
    moreover have "fmlookup (versions (resultManager r)) (versionKey m R) = Some (writtenObj s)"
      using False by (simp add: r_def Update_def assms(2,3) L W)
    ultimately show ?thesis by (simp add: cachedStatus_def key GetStatus_def)
  qed
  show "resultVersionMap r = retainVersions sel olds V"
    by (simp add: r_def Update_def assms(2,3) L split: prod.splits)
  show "resultWrite r = (if Status ob = st then None else Some (ob\<lparr>Status := st\<rparr>))"
    by (simp add: r_def Update_def assms(2,3) L split: prod.splits)
  show "Status ob = st \<Longrightarrow> resultErr r = None \<and> resultApi r = a \<and> resultManager r = m"
    by (simp add: r_def Update_def assms(2,3) L)
qed

lemma versionKey_test [simp]:
  "versionKey (testManagerWith ob) (testResource tv ov) = ''ns/ConfigMap-cm''"
  "versionKey testManager (testResource tv ov) = ''ns/ConfigMap-cm''"
  by (simp_all add: versionKey_def versionQualifiedName_def QualifiedName_String_def
      testManagerWith_def testManager_def testResource_def)

lemma lookup_testManagerWith:
  "fmlookup (versions (testManagerWith ob)) (versionKey (testManagerWith ob) (testResource tv ov)) = Some ob"
  unfolding versionKey_test by (simp add: testManagerWith_def testManager_def)

section \<open>The merge of Update\<close>

text \<open>
  Claim C2, as stated: with a cached record under the resource's versions,
  \<^verbatim>\<open>Update\<close> stores the union of the new version map with the old entries of the
  selected clusters that the new map does not name. It fails where the new map
  holds an empty version: the record \<open>c1 \<mapsto> v1, c2 \<mapsto> v1\<close>, updated for the
  clusters \<open>c1, c2\<close> with the map \<open>c1 \<mapsto> ""\<close>, is stored as \<open>c2 \<mapsto> v1\<close> alone,
  while the union holds an entry for \<open>c1\<close>.
\<close>

theorem Update_stores_union_counterexample:
  "cachedStatus
     (resultManager (Update fakeClient 3 (testManagerWith priorVersionObj) (testResource ''t1'' ''o1'')
        [''c1'', ''c2''] (fmap_of_list [(''c1'', [])]) exampleApi))
     (testResource ''t1'' ''o1'')
   = Some \<lparr>TemplateVersion = ''t1'', OverrideVersion = ''o1'',
           ClusterVersions = [\<lparr>ClusterName = ''c2'', Version = ''v1''\<rparr>]\<rparr>
   \<and> fmlookup (mergedVersionMap (ClusterVersions (Status priorVersionObj)) [''c1'', ''c2'']
        (fmap_of_list [(''c1'', [])])) ''c1'' = Some []"
  by code_simp

text \<open>
  Claim C2, amended: with a cached record under the resource's versions, \<^verbatim>\<open>Update\<close>
  stores that union without its entries of empty version, as the list sorted by
  cluster name; \<^verbatim>\<open>Get\<close> then returns the union without those entries. The witness
  is the example of the claim: \<open>c1 \<mapsto> v1, c2 \<mapsto> v1\<close> updated with \<open>c1 \<mapsto> v2\<close> gives
  \<open>c1 \<mapsto> v2, c2 \<mapsto> v1\<close>.
\<close>

theorem Update_merge_law:
  assumes "fmlookup (versions m) (versionKey m R) = Some ob"
    and "vrTemplateVersion R = Inr (TemplateVersion (Status ob))"
    and "vrOverrideVersion R = Inr (OverrideVersion (Status ob))"
  shows "cachedStatus (resultManager (Update client retries m R selectedClusters newVersionMap a)) R =
           Some \<lparr>TemplateVersion = TemplateVersion (Status ob),
                 OverrideVersion = OverrideVersion (Status ob),
                 ClusterVersions = VersionMapToClusterVersions
                   (mergedVersionMap (ClusterVersions (Status ob)) selectedClusters newVersionMap)\<rparr>
       \<and> Get (resultManager (Update client retries m R selectedClusters newVersionMap a)) R =
           Inr (fmfilter
                  (\<lambda>c. fmlookup (mergedVersionMap (ClusterVersions (Status ob)) selectedClusters
                                   newVersionMap) c \<noteq> Some [])
                  (mergedVersionMap (ClusterVersions (Status ob)) selectedClusters newVersionMap))"
proof -
  let ?r = "Update client retries m R selectedClusters newVersionMap a"
  let ?M = "mergedVersionMap (ClusterVersions (Status ob)) selectedClusters newVersionMap"
  have c: "cachedStatus (resultManager ?r) R =
      Some \<lparr>TemplateVersion = TemplateVersion (Status ob),
            OverrideVersion = OverrideVersion (Status ob),
            ClusterVersions = VersionMapToClusterVersions ?M\<rparr>"
    using Update_existing(1)[OF assms, of client retries selectedClusters newVersionMap a]
    by (simp add: retainVersions_mergedVersionMap)
  then obtain ob' where ob': "fmlookup (versions (resultManager ?r)) (versionKey (resultManager ?r) R) = Some ob'"
    and st: "Status ob' = \<lparr>TemplateVersion = TemplateVersion (Status ob),
            OverrideVersion = OverrideVersion (Status ob),
            ClusterVersions = VersionMapToClusterVersions ?M\<rparr>"
    by (auto simp: cachedStatus_def GetStatus_def)
  have "Get (resultManager ?r) R = Inr (fmfilter (\<lambda>c. fmlookup ?M c \<noteq> Some []) ?M)"
    by (simp add: Get_def ob' GetStatus_def st assms(2,3)
        clusterVersionsToMap_VersionMapToClusterVersions)
  with c show ?thesis by simp
qed

lemma merge_example:
  "VersionMapToClusterVersions
     (mergedVersionMap (ClusterVersions (Status priorVersionObj)) [''c1'', ''c2'']
        (fmap_of_list [(''c1'', ''v2'')]))
   = [\<lparr>ClusterName = ''c1'', Version = ''v2''\<rparr>, \<lparr>ClusterName = ''c2'', Version = ''v1''\<rparr>]"
  by code_simp

theorem Update_merge_law_witness:
  "cachedStatus
     (resultManager (Update fakeClient 3 (testManagerWith priorVersionObj) (testResource ''t1'' ''o1'')
        [''c1'', ''c2''] (fmap_of_list [(''c1'', ''v2'')]) exampleApi))
     (testResource ''t1'' ''o1'')
   = Some \<lparr>TemplateVersion = ''t1'', OverrideVersion = ''o1'',
           ClusterVersions = [\<lparr>ClusterName = ''c1'', Version = ''v2''\<rparr>,
                              \<lparr>ClusterName = ''c2'', Version = ''v1''\<rparr>]\<rparr>"
proof -
  have t: "vrTemplateVersion (testResource ''t1'' ''o1'') = Inr (TemplateVersion (Status priorVersionObj))"
    and o: "vrOverrideVersion (testResource ''t1'' ''o1'') = Inr (OverrideVersion (Status priorVersionObj))"
    by (simp_all add: testResource_def priorVersionObj_def testVersionObj_def)
  show ?thesis
    using Update_merge_law[OF lookup_testManagerWith t o, of fakeClient 3 "[''c1'', ''c2'']"
        "fmap_of_list [(''c1'', ''v2'')]" exampleApi, THEN conjunct1]
    by (simp only: merge_example) (simp add: priorVersionObj_def testVersionObj_def)
qed

text \<open>
  Claim C9. When the cached record's template version or override version differs
  from the resource's, no old cluster version enters the merge: the record stored is
  the new version map alone, without its entries of empty version, also for selected
  clusters that had a version before.
\<close>

theorem Update_discards_stale_versions:
  assumes "fmlookup (versions m) (versionKey m R) = Some ob"
    and "vrTemplateVersion R = Inr tv" and "vrOverrideVersion R = Inr ov"
    and "TemplateVersion (Status ob) \<noteq> tv \<or> OverrideVersion (Status ob) \<noteq> ov"
  shows "cachedStatus (resultManager (Update client retries m R selectedClusters versionMap a)) R =
           Some \<lparr>TemplateVersion = tv, OverrideVersion = ov,
                 ClusterVersions = VersionMapToClusterVersions versionMap\<rparr>
       \<and> Get (resultManager (Update client retries m R selectedClusters versionMap a)) R =
           Inr (fmfilter (\<lambda>c. fmlookup versionMap c \<noteq> Some []) versionMap)"
proof -
  let ?r = "Update client retries m R selectedClusters versionMap a"
  have c: "cachedStatus (resultManager ?r) R =
      Some \<lparr>TemplateVersion = tv, OverrideVersion = ov,
            ClusterVersions = VersionMapToClusterVersions versionMap\<rparr>"
    using Update_existing(1)[OF assms(1-3), of client retries selectedClusters versionMap a] assms(4)
    by auto
  then obtain ob' where ob': "fmlookup (versions (resultManager ?r)) (versionKey (resultManager ?r) R) = Some ob'"
    and st: "Status ob' = \<lparr>TemplateVersion = tv, OverrideVersion = ov,
            ClusterVersions = VersionMapToClusterVersions versionMap\<rparr>"
    by (auto simp: cachedStatus_def GetStatus_def)
  have "Get (resultManager ?r) R = Inr (fmfilter (\<lambda>c. fmlookup versionMap c \<noteq> Some []) versionMap)"
    by (simp add: Get_def ob' GetStatus_def st assms(2,3)
        clusterVersionsToMap_VersionMapToClusterVersions)
  with c show ?thesis by simp
qed

lemma stale_example:
  "VersionMapToClusterVersions (fmap_of_list [(''c1'', ''v2''), (''c3'', [])])
   = [\<lparr>ClusterName = ''c1'', Version = ''v2''\<rparr>]"
  by code_simp

theorem Update_discards_stale_versions_witness:
  "cachedStatus
     (resultManager (Update fakeClient 3 (testManagerWith priorVersionObj) (testResource ''t2'' ''o1'')
        [''c1'', ''c2''] (fmap_of_list [(''c1'', ''v2''), (''c3'', [])]) exampleApi))
     (testResource ''t2'' ''o1'')
   = Some \<lparr>TemplateVersion = ''t2'', OverrideVersion = ''o1'',
           ClusterVersions = [\<lparr>ClusterName = ''c1'', Version = ''v2''\<rparr>]\<rparr>"
proof -
  have t: "vrTemplateVersion (testResource ''t2'' ''o1'') = Inr ''t2''"
    and o: "vrOverrideVersion (testResource ''t2'' ''o1'') = Inr ''o1''"
    by (simp_all add: testResource_def)
  have d: "TemplateVersion (Status priorVersionObj) \<noteq> ''t2'' \<or>
           OverrideVersion (Status priorVersionObj) \<noteq> ''o1''"
    by (simp add: priorVersionObj_def testVersionObj_def)
  show ?thesis
    using Update_discards_stale_versions[OF lookup_testManagerWith t o d, of fakeClient 3
        "[''c1'', ''c2'']" "fmap_of_list [(''c1'', ''v2''), (''c3'', [])]" exampleApi, THEN conjunct1]
    by (simp only: stale_example)
qed

section \<open>The caller's version map\<close>

text \<open>
  Claim C10, as stated: for each selected cluster with an entry in the existing
  record and none in the caller's map, \<^verbatim>\<open>Update\<close> writes the old version into the
  caller's map. It fails when the record's template version differs from the
  resource's: the record holds \<open>c1\<close> and \<open>c2\<close>, both are selected, the caller's map is
  empty, and it is still empty after the call.
\<close>

theorem Update_mutates_versionMap_counterexample:
  "resultVersionMap
     (Update fakeClient 3 (testManagerWith priorVersionObj) (testResource ''t2'' ''o1'')
        [''c1'', ''c2''] fmempty exampleApi) = fmempty
   \<and> cachedStatus (testManagerWith priorVersionObj) (testResource ''t2'' ''o1'')
       = Some \<lparr>TemplateVersion = ''t1'', OverrideVersion = ''o1'',
               ClusterVersions = [\<lparr>ClusterName = ''c1'', Version = ''v1''\<rparr>,
                                  \<lparr>ClusterName = ''c2'', Version = ''v1''\<rparr>]\<rparr>"
  by code_simp

text \<open>
  Claim C10, amended: when the existing record carries the resource's template and
  override versions, the caller's map after \<^verbatim>\<open>Update\<close> is the merged map, so each
  selected cluster with an old version and no entry of its own has got the old
  version; when one of the two versions differs, the caller's map is unchanged.
\<close>

theorem Update_mutates_versionMap:
  assumes "fmlookup (versions m) (versionKey m R) = Some ob"
    and "vrTemplateVersion R = Inr tv" and "vrOverrideVersion R = Inr ov"
  shows "(TemplateVersion (Status ob) = tv \<and> OverrideVersion (Status ob) = ov \<longrightarrow>
            resultVersionMap (Update client retries m R selectedClusters versionMap a) =
              mergedVersionMap (ClusterVersions (Status ob)) selectedClusters versionMap
          \<and> (\<forall>c v. c \<in> set selectedClusters \<and> fmlookup versionMap c = None \<and>
                   map_of (map (\<lambda>old. (ClusterName old, Version old)) (ClusterVersions (Status ob))) c
                     = Some v \<longrightarrow>
                   fmlookup (resultVersionMap (Update client retries m R selectedClusters versionMap a)) c
                     = Some v))
       \<and> (TemplateVersion (Status ob) \<noteq> tv \<or> OverrideVersion (Status ob) \<noteq> ov \<longrightarrow>
            resultVersionMap (Update client retries m R selectedClusters versionMap a) = versionMap)"
proof -
  note U = Update_existing(2)[OF assms, of client retries selectedClusters versionMap a]
  show ?thesis
    using U
    by (auto simp: retainVersions_mergedVersionMap[symmetric] fmlookup_retainVersions versionPair_def)
qed

theorem Update_mutates_versionMap_witness:
  "fmlookup (resultVersionMap
     (Update fakeClient 3 (testManagerWith priorVersionObj) (testResource ''t1'' ''o1'')
        [''c1'', ''c2''] (fmap_of_list [(''c1'', ''v2'')]) exampleApi)) ''c2'' = Some ''v1''"
proof -
  have t: "vrTemplateVersion (testResource ''t1'' ''o1'') = Inr ''t1''"
    and o: "vrOverrideVersion (testResource ''t1'' ''o1'') = Inr ''o1''"
    by (simp_all add: testResource_def)
  have h: "TemplateVersion (Status priorVersionObj) = ''t1'' \<and>
           OverrideVersion (Status priorVersionObj) = ''o1''"
    by (simp add: priorVersionObj_def testVersionObj_def)
  have p: "''c2'' \<in> set [''c1'', ''c2''] \<and> fmlookup (fmap_of_list [(''c1'', ''v2'')]) ''c2'' = None \<and>
       map_of (map (\<lambda>old. (ClusterName old, Version old)) (ClusterVersions (Status priorVersionObj))) ''c2''
         = Some ''v1''"
    by (simp add: priorVersionObj_def testVersionObj_def)
  show ?thesis
    using Update_mutates_versionMap[where client=fakeClient and retries=3
        and selectedClusters="[''c1'', ''c2'']" and versionMap="fmap_of_list [(''c1'', ''v2'')]"
        and a=exampleApi, OF lookup_testManagerWith t o,
        THEN conjunct1, rule_format, OF h, THEN conjunct2, rule_format, OF p] .
qed



section \<open>Write avoidance\<close>




section \<open>Errors and empty maps of Get\<close>

text \<open>
  Claim C4, as stated: a failure to compute the template version is returned by
  \<^verbatim>\<open>Get\<close> as an error. It fails for a resource without a cached record: \<^verbatim>\<open>Get\<close>
  returns the empty map and no error, since it looks the record up first.
\<close>

theorem Get_failing_version_counterexample:
  "vrTemplateVersion failingResource = Inl (ErrorString ''no template'')
   \<and> Get testManager failingResource = Inr fmempty"
  by code_simp

text \<open>
  Claim C4, amended: without a cached record \<^verbatim>\<open>Get\<close> returns the empty map and no
  error, whether or not the versions can be computed; with a cached record, a failure
  of the template version, or else of the override version, is returned wrapped as
  the error, and when both are computed and one of them differs from the record's,
  the result is the empty map.
\<close>

theorem Get_error_and_empty_map:
  "(fmlookup (versions m) (versionKey m R) = None \<longrightarrow> Get m R = Inr fmempty)
   \<and> (\<forall>ob. fmlookup (versions m) (versionKey m R) = Some ob \<longrightarrow>
        (\<forall>e. vrTemplateVersion R = Inl e \<longrightarrow>
              Get m R = Inl (Wrapped e ''Failed to determine template version''))
      \<and> (\<forall>tv e. vrTemplateVersion R = Inr tv \<and> vrOverrideVersion R = Inl e \<longrightarrow>
              Get m R = Inl (Wrapped e ''Failed to determine override version''))
      \<and> (\<forall>tv ov. vrTemplateVersion R = Inr tv \<and> vrOverrideVersion R = Inr ov \<and>
              (TemplateVersion (GetStatus ob) \<noteq> tv \<or> OverrideVersion (GetStatus ob) \<noteq> ov) \<longrightarrow>
              Get m R = Inr fmempty))"
  by (auto simp: Get_def Let_def)

theorem Get_error_and_empty_map_witness:
  "Get (testManagerWith priorVersionObj) failingResource =
     Inl (Wrapped (ErrorString ''no template'') ''Failed to determine template version'')
   \<and> Get (testManagerWith priorVersionObj) (testResource ''t2'' ''o1'') = Inr fmempty
   \<and> Get testManager (testResource ''t1'' ''o1'') = Inr fmempty"
proof -
  have k: "versionKey (testManagerWith priorVersionObj) failingResource = ''ns/ConfigMap-cm''"
    by (simp add: versionKey_def versionQualifiedName_def QualifiedName_String_def
      testManagerWith_def testManager_def testResource_def failingResource_def)
  have l: "fmlookup (versions (testManagerWith priorVersionObj))
             (versionKey (testManagerWith priorVersionObj) failingResource) = Some priorVersionObj"
    unfolding k by (simp add: testManagerWith_def testManager_def)
  have f: "vrTemplateVersion failingResource = Inl (ErrorString ''no template'')"
    by (simp add: failingResource_def)
  have d: "vrTemplateVersion (testResource ''t2'' ''o1'') = Inr ''t2'' \<and>
           vrOverrideVersion (testResource ''t2'' ''o1'') = Inr ''o1'' \<and>
           (TemplateVersion (GetStatus priorVersionObj) \<noteq> ''t2'' \<or>
            OverrideVersion (GetStatus priorVersionObj) \<noteq> ''o1'')"
    by (simp add: testResource_def priorVersionObj_def testVersionObj_def GetStatus_def)
  have e: "fmlookup (versions testManager) (versionKey testManager (testResource ''t1'' ''o1'')) = None"
    by (simp add: testManager_def)
  show ?thesis
    using Get_error_and_empty_map[of "testManagerWith priorVersionObj" failingResource,
            THEN conjunct2, rule_format, OF l, THEN conjunct1, rule_format, OF f]
          Get_error_and_empty_map[of "testManagerWith priorVersionObj" "testResource ''t2'' ''o1''",
            THEN conjunct2, rule_format, OF lookup_testManagerWith, THEN conjunct2, THEN conjunct2,
            rule_format, OF d]
          Get_error_and_empty_map[of testManager "testResource ''t1'' ''o1''",
            THEN conjunct1, rule_format, OF e]
    by simp
qed

section \<open>Error classification of the durable write\<close>


lemma same_token [simp]: "ob\<lparr>ResourceVersion := ResourceVersion ob\<rparr> = (ob :: VersionObj)"
  by simp











lemma writeVersionFrom_cong:
  "writeVersionCondition client qn s = writeVersionCondition client qn s' \<Longrightarrow>
   writeVersionFrom client n qn s = writeVersionFrom client n qn s'"
  by (cases n) (simp_all add: writeVersionFrom_def)

lemma startWrite_simps [simp]:
  "resourceVersion (startWrite ob a) = ResourceVersion ob"
  "refreshVersion (startWrite ob a) = False"
  "writtenObj (startWrite ob a) = ob"
  "apiState (startWrite ob a) = a"
  by (simp_all add: startWrite_def)








text \<open>
  Two scripted runs. A conflict, then success: one update with the stale token, one
  read of the fresh token, one update with it. And a not-found, an already-exists and
  a forbidden in a row: the poll stops at the forbidden update and leaves the rest of
  the script unread.
\<close>

lemma writeVersion_conflict_run:
  "fst (writeVersion fakeClient 5 priorVersionObj (objName priorVersionObj)
          (scriptedApi [Inl (APIStatusError Conflict), Inr ''7'', Inr ''8''])) = None
   \<and> map callTrace (calls (apiState (snd (writeVersion fakeClient 5 priorVersionObj
          (objName priorVersionObj)
          (scriptedApi [Inl (APIStatusError Conflict), Inr ''7'', Inr ''8''])))))
       = [(''UpdateStatus'', ''5''), (''Get'', ''ConfigMap-cm''), (''UpdateStatus'', ''7'')]
   \<and> ResourceVersion (writtenObj (snd (writeVersion fakeClient 5 priorVersionObj
          (objName priorVersionObj)
          (scriptedApi [Inl (APIStatusError Conflict), Inr ''7'', Inr ''8''])))) = ''8''"
  by code_simp

lemma writeVersion_forbidden_run:
  "fst (writeVersion fakeClient 5 priorVersionObj (objName priorVersionObj)
          (scriptedApi [Inl (APIStatusError NotFound), Inl (APIStatusError AlreadyExists),
                        Inr ''7'', Inl (APIStatusError Forbidden), Inr ''9'']))
     = Some (Wrapped (APIStatusError Forbidden) ''Failed to write the version map to the API'')
   \<and> map callTrace (calls (apiState (snd (writeVersion fakeClient 5 priorVersionObj
          (objName priorVersionObj)
          (scriptedApi [Inl (APIStatusError NotFound), Inl (APIStatusError AlreadyExists),
                        Inr ''7'', Inl (APIStatusError Forbidden), Inr ''9'']))))) 
       = [(''UpdateStatus'', ''5''), (''Create'', []), (''Get'', ''ConfigMap-cm''),
          (''UpdateStatus'', ''7'')]
   \<and> answers (apiState (snd (writeVersion fakeClient 5 priorVersionObj
          (objName priorVersionObj)
          (scriptedApi [Inl (APIStatusError NotFound), Inl (APIStatusError AlreadyExists),
                        Inr ''7'', Inl (APIStatusError Forbidden), Inr ''9''])))) = [Inr ''9'']"
  by code_simp

section \<open>The cluster status list\<close>

lemma map_insort_key: "map f (insort_key f x xs) = insort (f x) (map f xs)"
  by (induction xs) simp_all

lemma map_sort_key: "map f (sort_key f xs) = sort (map f xs)"
  by (induction xs) (simp_all add: map_insort_key)

lemma fst_NestedMap:
  "fst (NestedMap ob field) =
     (case fmlookup ob field of Some (JObject m) \<Rightarrow> Some m | _ \<Rightarrow> None)"
  by (simp add: NestedMap_def split: option.splits json.splits)

lemma clusterStatusesLoop_ok:
  "\<forall>c \<in> set names. \<forall>e. store c key \<noteq> Inl e \<Longrightarrow>
   clusterStatusesLoop store key names acc = Inr (acc @ map (clusterEntry store key) names)"
proof (induction names arbitrary: acc)
  case Nil
  then show ?case by simp
next
  case (Cons c names)
  from Cons.prems obtain r where r: "store c key = Inr r"
    by (cases "store c key") auto
  have "clusterStatusesLoop store key (c # names) acc =
        clusterStatusesLoop store key names (acc @ [clusterEntry store key c])"
    by (simp add: r clusterEntry_def fst_NestedMap split: option.splits)
  then show ?case using Cons.IH[of "acc @ [clusterEntry store key c]"] Cons.prems by simp
qed

lemma clusterStatusesLoop_error:
  "\<exists>c \<in> set names. \<exists>e. store c key = Inl e \<Longrightarrow>
   \<exists>c \<in> set names. \<exists>e. store c key = Inl e \<and>
     clusterStatusesLoop store key names acc = Inl (Wrapped e ''Failed to get object from cluster'')"
proof (induction names arbitrary: acc)
  case Nil
  then show ?case by simp
next
  case (Cons c names)
  show ?case
  proof (cases "store c key")
    case (Inl e)
    then show ?thesis by auto
  next
    case (Inr r)
    then have "\<exists>c \<in> set names. \<exists>e. store c key = Inl e" using Cons.prems by auto
    from Cons.IH[OF this] show ?thesis using Inr by (auto simp: Let_def)
  qed
qed

text \<open>
  Claim C8. When no lookup in a target store fails, \<^verbatim>\<open>clusterStatuses\<close> returns the
  entries of the ready clusters, one for each name of the list, sorted by cluster
  name (the names of the result are the sorted list of names); a cluster whose object
  is absent from the cache, or whose \<^verbatim>\<open>status\<close> is not found or is no map, has its
  entry with a \<^verbatim>\<open>nil\<close> status; and when a lookup fails, the result is its error,
  wrapped, and no list. Entries of the same name are the same entry, so the order
  that the unstable \<^verbatim>\<open>sort.Slice\<close> gives them does not show. The witness is the
  example of the claim: the clusters \<open>c3, c1, c2\<close> come out as \<open>c1, c2, c3\<close>.
\<close>

theorem clusterStatuses_construction:
  "((\<forall>c \<in> set names. \<forall>e. targetStore s c key \<noteq> Inl e) \<longrightarrow>
      clusterStatuses s names key =
        Inr (sort_key rcsClusterName (map (clusterEntry (targetStore s) key) names))
      \<and> map rcsClusterName
          (sort_key rcsClusterName (map (clusterEntry (targetStore s) key) names)) = sort names
      \<and> length (sort_key rcsClusterName (map (clusterEntry (targetStore s) key) names))
          = length names
      \<and> (\<forall>c \<in> set names.
            (targetStore s c key = Inr None \<longrightarrow>
               \<lparr>rcsClusterName = c, rcsStatus = None\<rparr>
                 \<in> set (sort_key rcsClusterName (map (clusterEntry (targetStore s) key) names)))
          \<and> (\<forall>ob. targetStore s c key = Inr (Some ob) \<and>
                   snd (NestedMap (Object ob) ''status'') \<noteq> (True, None) \<longrightarrow>
               \<lparr>rcsClusterName = c, rcsStatus = None\<rparr>
                 \<in> set (sort_key rcsClusterName (map (clusterEntry (targetStore s) key) names)))
          \<and> (\<forall>ob m. targetStore s c key = Inr (Some ob) \<and>
                   NestedMap (Object ob) ''status'' = (Some m, True, None) \<longrightarrow>
               \<lparr>rcsClusterName = c, rcsStatus = Some m\<rparr>
                 \<in> set (sort_key rcsClusterName (map (clusterEntry (targetStore s) key) names)))))
   \<and> ((\<exists>c \<in> set names. \<exists>e. targetStore s c key = Inl e) \<longrightarrow>
        (\<exists>c \<in> set names. \<exists>e. targetStore s c key = Inl e \<and>
           clusterStatuses s names key = Inl (Wrapped e ''Failed to get object from cluster'')))"
proof (intro conjI impI)
  let ?entries = "map (clusterEntry (targetStore s) key) names"
  assume ok: "\<forall>c \<in> set names. \<forall>e. targetStore s c key \<noteq> Inl e"
  show "clusterStatuses s names key = Inr (sort_key rcsClusterName ?entries)"
    using clusterStatusesLoop_ok[where store="targetStore s" and key=key and names=names
        and acc="[]", OF ok]
    by (simp add: clusterStatuses_def)
  have "map rcsClusterName ?entries = names"
    by (induction names) (simp_all add: clusterEntry_def)
  then show "map rcsClusterName (sort_key rcsClusterName ?entries) = sort names"
    by (simp add: map_sort_key)
  show "length (sort_key rcsClusterName ?entries) = length names" by simp
  show "\<forall>c \<in> set names.
            (targetStore s c key = Inr None \<longrightarrow>
               \<lparr>rcsClusterName = c, rcsStatus = None\<rparr> \<in> set (sort_key rcsClusterName ?entries))
          \<and> (\<forall>ob. targetStore s c key = Inr (Some ob) \<and>
                   snd (NestedMap (Object ob) ''status'') \<noteq> (True, None) \<longrightarrow>
               \<lparr>rcsClusterName = c, rcsStatus = None\<rparr> \<in> set (sort_key rcsClusterName ?entries))
          \<and> (\<forall>ob m. targetStore s c key = Inr (Some ob) \<and>
                   NestedMap (Object ob) ''status'' = (Some m, True, None) \<longrightarrow>
               \<lparr>rcsClusterName = c, rcsStatus = Some m\<rparr> \<in> set (sort_key rcsClusterName ?entries))"
  proof (intro ballI conjI impI allI)
    fix c assume c: "c \<in> set names"
    then have in_set: "clusterEntry (targetStore s) key c \<in> set (sort_key rcsClusterName ?entries)"
      by simp
    { assume "targetStore s c key = Inr None"
      then have "clusterEntry (targetStore s) key c = \<lparr>rcsClusterName = c, rcsStatus = None\<rparr>"
        by (simp add: clusterEntry_def)
      with in_set show "\<lparr>rcsClusterName = c, rcsStatus = None\<rparr> \<in> set (sort_key rcsClusterName ?entries)"
        by simp }
    { fix ob
      assume "targetStore s c key = Inr (Some ob) \<and>
              snd (NestedMap (Object ob) ''status'') \<noteq> (True, None)"
      then have "clusterEntry (targetStore s) key c = \<lparr>rcsClusterName = c, rcsStatus = None\<rparr>"
        by (auto simp: clusterEntry_def NestedMap_def split: option.splits json.splits)
      with in_set show "\<lparr>rcsClusterName = c, rcsStatus = None\<rparr> \<in> set (sort_key rcsClusterName ?entries)"
        by simp }
    { fix ob m
      assume "targetStore s c key = Inr (Some ob) \<and>
              NestedMap (Object ob) ''status'' = (Some m, True, None)"
      then have "clusterEntry (targetStore s) key c = \<lparr>rcsClusterName = c, rcsStatus = Some m\<rparr>"
        by (auto simp: clusterEntry_def NestedMap_def split: option.splits json.splits)
      with in_set show "\<lparr>rcsClusterName = c, rcsStatus = Some m\<rparr> \<in> set (sort_key rcsClusterName ?entries)"
        by simp }
  qed
next
  assume "\<exists>c \<in> set names. \<exists>e. targetStore s c key = Inl e"
  from clusterStatusesLoop_error[where store="targetStore s" and key=key and names=names
        and acc="[]", OF this]
  show "\<exists>c \<in> set names. \<exists>e. targetStore s c key = Inl e \<and>
           clusterStatuses s names key = Inl (Wrapped e ''Failed to get object from cluster'')"
    by (auto simp: clusterStatuses_def)
qed

lemma exampleTargetStore_ok:
  "\<forall>c \<in> set [''c3'', ''c1'', ''c2'']. \<forall>e. exampleTargetStore c ''ns/cm'' \<noteq> Inl e"
  by (simp add: exampleTargetStore_def)

lemma exampleTargetStore_entries:
  "sort_key rcsClusterName (map (clusterEntry exampleTargetStore ''ns/cm'') [''c3'', ''c1'', ''c2''])
   = [\<lparr>rcsClusterName = ''c1'',
        rcsStatus = Some (fmap_of_list [(''phase'', JString ''Running'')])\<rparr>,
      \<lparr>rcsClusterName = ''c2'', rcsStatus = None\<rparr>,
      \<lparr>rcsClusterName = ''c3'', rcsStatus = None\<rparr>]"
  by code_simp

lemma exampleController_targetStore:
  "targetStore (exampleController obs ready existing) = exampleTargetStore"
  by (simp add: exampleController_def)

theorem clusterStatuses_construction_witness:
  "clusterStatuses (exampleController alwaysSynced [] None) [''c3'', ''c1'', ''c2'']
      ''ns/cm''
   = Inr [\<lparr>rcsClusterName = ''c1'',
            rcsStatus = Some (fmap_of_list [(''phase'', JString ''Running'')])\<rparr>,
          \<lparr>rcsClusterName = ''c2'', rcsStatus = None\<rparr>,
          \<lparr>rcsClusterName = ''c3'', rcsStatus = None\<rparr>]
   \<and> (\<exists>e. clusterStatuses (exampleController alwaysSynced [] None)
             [''c1'', ''c9''] ''ns/cm'' = Inl e)"
proof -
  let ?s = "exampleController alwaysSynced [] None"
  have ok: "\<forall>c \<in> set [''c3'', ''c1'', ''c2'']. \<forall>e. targetStore ?s c ''ns/cm'' \<noteq> Inl e"
    using exampleTargetStore_ok by (simp only: exampleController_targetStore)
  have bad: "\<exists>c \<in> set [''c1'', ''c9'']. \<exists>e. targetStore ?s c ''ns/cm'' = Inl e"
    by (simp add: exampleController_targetStore exampleTargetStore_def)
  have 1: "clusterStatuses ?s [''c3'', ''c1'', ''c2''] ''ns/cm'' =
      Inr (sort_key rcsClusterName (map (clusterEntry (targetStore ?s) ''ns/cm'') [''c3'', ''c1'', ''c2'']))"
    using clusterStatuses_construction[of "[''c3'', ''c1'', ''c2'']" ?s "''ns/cm''",
        THEN conjunct1, THEN mp, OF ok, THEN conjunct1] .
  have 2: "\<exists>e. clusterStatuses ?s [''c1'', ''c9''] ''ns/cm'' = Inl e"
    using clusterStatuses_construction[of "[''c1'', ''c9'']" ?s "''ns/cm''",
        THEN conjunct2, THEN mp, OF bad] by blast
  show ?thesis
    using 1 2 by (simp only: exampleController_targetStore exampleTargetStore_entries simp_thms)
qed

section \<open>The outcome of reconcile\<close>

lemma PollUntilContextTimeout_sync:
  "fst (PollUntilContextTimeout n
          (\<lambda>k. (if P k then ConditionDone else ConditionRetry, Suc k)) i) =
     (if \<exists>k. i \<le> k \<and> k \<le> i + n \<and> P k then None else Some DeadlineExceeded)"
proof (induction n arbitrary: i)
  case 0
  then show ?case by (auto simp: le_antisym)
next
  case (Suc n)
  show ?case
  proof (cases "P i")
    case True
    then have "\<exists>k. i \<le> k \<and> k \<le> i + Suc n \<and> P k" by (intro exI[of _ i]) simp
    then show ?thesis using True by simp
  next
    case False
    have "(\<exists>k. i \<le> k \<and> k \<le> i + Suc n \<and> P k) \<longleftrightarrow> (\<exists>k. Suc i \<le> k \<and> k \<le> Suc i + n \<and> P k)"
      using False by (metis Suc_leD Suc_leI add_Suc add_Suc_right le_neq_implies_less)
    then show ?thesis using False Suc.IH[of "Suc i"] by simp
  qed
qed

lemma waitForSync_iff:
  "waitForSync s = (if \<exists>k \<le> syncPolls s. isSynced (observe s k) then None
                    else Some DeadlineExceeded)"
  using PollUntilContextTimeout_sync[of "syncPolls s" "\<lambda>k. isSynced (observe s k)" 0]
  by (simp add: waitForSync_def)

lemma writeStatus_Returned:
  "\<exists>st. fst (writeStatus s w qn existing status) = Returned st"
  by (auto simp: writeStatus_def Let_def split: option.splits prod.splits)

text \<open>
  Claim C6, as stated: a failed wait for the caches never ends the process, and
  \<^verbatim>\<open>reconcile\<close> always returns one of the four statuses. It fails on a controller
  whose status informer never syncs: the wait runs into its deadline and
  \<^verbatim>\<open>klog.Fatalf\<close> ends the process with exit code 255.
\<close>

theorem reconcile_sync_failure_counterexample:
  "waitForSync (exampleController neverSynced [''c1''] None)
     = Some DeadlineExceeded
   \<and> reconcile (exampleController neverSynced [''c1''] None)
       [] exampleKey = (ProcessExit 255, [])"
  by code_simp

text \<open>
  Claim C6, amended: when one of the runs of \<^verbatim>\<open>isSynced\<close> within the time bound
  finds the caches synced, \<^verbatim>\<open>reconcile\<close> returns one of the four reconciliation
  statuses, for every key; when none does, it does not return: the process ends with
  exit code 255 and nothing is written.
\<close>

theorem reconcile_outcome:
  "((\<exists>k \<le> syncPolls s. isSynced (observe s k)) \<longrightarrow>
      (\<exists>st. fst (reconcile s w qualifiedName) = Returned st \<and>
            st \<in> {StatusAllOK, StatusNeedsRecheck, StatusError, StatusNotSynced}))
   \<and> (\<not> (\<exists>k \<le> syncPolls s. isSynced (observe s k)) \<longrightarrow>
        reconcile s w qualifiedName = (ProcessExit 255, w))"
proof (intro conjI impI)
  assume "\<exists>k \<le> syncPolls s. isSynced (observe s k)"
  then have w: "waitForSync s = None" by (simp add: waitForSync_iff)
  have "\<exists>st. fst (reconcile s w qualifiedName) = Returned st"
    using writeStatus_Returned
    by (auto simp: reconcile_def w Let_def split: sum.splits option.splits)
  then obtain st where "fst (reconcile s w qualifiedName) = Returned st" by blast
  moreover have "st \<in> {StatusAllOK, StatusNeedsRecheck, StatusError, StatusNotSynced}"
    by (cases st) simp_all
  ultimately show "\<exists>st. fst (reconcile s w qualifiedName) = Returned st \<and>
            st \<in> {StatusAllOK, StatusNeedsRecheck, StatusError, StatusNotSynced}" by blast
next
  assume "\<not> (\<exists>k \<le> syncPolls s. isSynced (observe s k))"
  then have "waitForSync s = Some DeadlineExceeded" by (simp add: waitForSync_iff)
  then show "reconcile s w qualifiedName = (ProcessExit 255, w)"
    by (simp add: reconcile_def)
qed

lemma example_synced:
  "\<exists>k \<le> syncPolls (exampleController alwaysSynced ready existing).
     isSynced (observe (exampleController alwaysSynced ready existing) k)"
  by (rule exI[of _ 0])
     (simp add: exampleController_def isSynced_def syncedObservation_def alwaysSynced_def)

lemma example_never_synced:
  "\<not> (\<exists>k \<le> syncPolls (exampleController neverSynced
                 ready existing).
     isSynced (observe (exampleController neverSynced
                 ready existing) k))"
  by (simp add: exampleController_def isSynced_def syncedObservation_def neverSynced_def)

theorem reconcile_outcome_witness:
  "(\<exists>st. fst (reconcile (exampleController alwaysSynced [''c1''] None) [] exampleKey)
           = Returned st)
   \<and> reconcile (exampleController neverSynced [''c1''] None)
       [] exampleKey = (ProcessExit 255, [])"
  using reconcile_outcome[of "exampleController alwaysSynced [''c1''] None" "[]" exampleKey,
          THEN conjunct1, THEN mp, OF example_synced]
        reconcile_outcome[of "exampleController neverSynced
            [''c1''] None" "[]" exampleKey, THEN conjunct2, THEN mp, OF example_never_synced]
  by blast



section \<open>Writing the status\<close>

lemma reconcile_reaches_writeStatus:
  assumes "waitForSync s = None"
    and "federatedStore s (QualifiedName_String qualifiedName) = Inr (Some fedObject)"
    and "GetDeletionTimestamp s fedObject = None"
    and "GetReadyClusters s = Inr names"
    and "clusterStatuses s names (QualifiedName_String qualifiedName) = Inr clusterStatus"
    and "statusStore s (QualifiedName_String qualifiedName) = Inr existingStatus"
    and "GetUnstructured s (candidateResource s qualifiedName fedObject clusterStatus) = Inr status"
  shows "reconcile s w qualifiedName = writeStatus s w qualifiedName existingStatus status"
proof -
  have n: "clusterNames s = Inr names"
  proof -
    have "foldl (\<lambda>ns c. ns @ [c]) acc xs = acc @ xs" for acc xs :: "string list"
      by (induction xs arbitrary: acc) simp_all
    then show ?thesis by (simp add: clusterNames_def assms(4))
  qed
  show ?thesis
    by (simp add: reconcile_def assms(1,2,3,5,6,7) n objFromCache_def Let_def)
qed

text \<open>
  A run of \<^verbatim>\<open>reconcile\<close> that finds a persisted status object: when its
  \<^verbatim>\<open>clusterStatus\<close> field equals the computed one, the run returns
  \<^verbatim>\<open>StatusAllOK\<close> and leaves the API as it was; when the fields differ, the object
  handed to the update is the existing one with its \<^verbatim>\<open>clusterStatus\<close> field set to
  the computed field, or to the empty list when that is \<^verbatim>\<open>nil\<close>.
\<close>

lemma reconcile_existing_status:
  assumes "waitForSync s = None"
    and "federatedStore s (QualifiedName_String qualifiedName) = Inr (Some fedObject)"
    and "GetDeletionTimestamp s fedObject = None"
    and "GetReadyClusters s = Inr names"
    and "clusterStatuses s names (QualifiedName_String qualifiedName) = Inr clusterStatus"
    and "statusStore s (QualifiedName_String qualifiedName) = Inr (Some existing)"
    and "GetUnstructured s (candidateResource s qualifiedName fedObject clusterStatus) = Inr status"
  shows "objectField existing ''clusterStatus'' = objectField status ''clusterStatus'' \<Longrightarrow>
           reconcile s w qualifiedName = (Returned StatusAllOK, w)"
    and "objectField existing ''clusterStatus'' \<noteq> objectField status ''clusterStatus'' \<Longrightarrow>
           reconcile s w qualifiedName =
             (case statusUpdate s w (Namespace qualifiedName)
                     (existing\<lparr>Object := fmupd ''clusterStatus''
                        (if objectField status ''clusterStatus'' = JNull then JArray []
                         else objectField status ''clusterStatus'') (Object existing)\<rparr>) of
                (Some e, w') \<Rightarrow> (Returned StatusNeedsRecheck, w')
              | (None, w') \<Rightarrow> (Returned StatusAllOK, w'))"
proof -
  note R = reconcile_reaches_writeStatus[OF assms]
  show "objectField existing ''clusterStatus'' = objectField status ''clusterStatus'' \<Longrightarrow>
           reconcile s w qualifiedName = (Returned StatusAllOK, w)"
    by (simp add: R writeStatus_def)
  show "objectField existing ''clusterStatus'' \<noteq> objectField status ''clusterStatus'' \<Longrightarrow>
           reconcile s w qualifiedName =
             (case statusUpdate s w (Namespace qualifiedName)
                     (existing\<lparr>Object := fmupd ''clusterStatus''
                        (if objectField status ''clusterStatus'' = JNull then JArray []
                         else objectField status ''clusterStatus'') (Object existing)\<rparr>) of
                (Some e, w') \<Rightarrow> (Returned StatusNeedsRecheck, w')
              | (None, w') \<Rightarrow> (Returned StatusAllOK, w'))"
    by (simp add: R writeStatus_def Let_def objectField_def)
qed

text \<open>
  The field written is the only field that changes, and a run that finds the object
  it wrote (or any object with that \<^verbatim>\<open>clusterStatus\<close>) in the status store writes
  nothing, provided the computed field was not \<^verbatim>\<open>nil\<close>.
\<close>

lemma written_frame:
  "field \<noteq> ''clusterStatus'' \<Longrightarrow>
   fmlookup (Object (existing\<lparr>Object := fmupd ''clusterStatus'' v (Object existing)\<rparr>)) field
     = fmlookup (Object existing) field"
  by simp

lemma withPersisted_simps [simp]:
  "waitForSync (withPersisted s key ob) = waitForSync s"
  "federatedStore (withPersisted s key ob) = federatedStore s"
  "GetDeletionTimestamp (withPersisted s key ob) = GetDeletionTimestamp s"
  "GetReadyClusters (withPersisted s key ob) = GetReadyClusters s"
  "clusterStatuses (withPersisted s key ob) = clusterStatuses s"
  "GetUnstructured (withPersisted s key ob) = GetUnstructured s"
  "candidateResource (withPersisted s key ob) = candidateResource s"
  "statusStore (withPersisted s key ob) key = Inr (Some ob)"
  "statusUpdate (withPersisted s key ob) = statusUpdate s"
  by (auto simp: withPersisted_def waitForSync_def GetDeletionTimestamp_def clusterStatuses_def
      candidateResource_def fun_eq_iff)

lemma reconcile_after_write:
  assumes "waitForSync s = None"
    and "federatedStore s (QualifiedName_String qualifiedName) = Inr (Some fedObject)"
    and "GetDeletionTimestamp s fedObject = None"
    and "GetReadyClusters s = Inr names"
    and "clusterStatuses s names (QualifiedName_String qualifiedName) = Inr clusterStatus"
    and "GetUnstructured s (candidateResource s qualifiedName fedObject clusterStatus) = Inr status"
    and "objectField status ''clusterStatus'' \<noteq> JNull"
    and "objectField persisted ''clusterStatus'' = objectField status ''clusterStatus''"
  shows "reconcile (withPersisted s (QualifiedName_String qualifiedName) persisted) w qualifiedName
           = (Returned StatusAllOK, w)"
  by (rule reconcile_existing_status(1)[where fedObject=fedObject and names=names
        and clusterStatus=clusterStatus and existing=persisted and status=status])
     (simp_all add: assms)

text \<open>
  Claim C7: running \<^verbatim>\<open>reconcile\<close> twice with no state change between the runs
  produces no additional write. The code compares the persisted field with the computed
  one before it replaces a computed \<^verbatim>\<open>nil\<close> by the empty list. So with no ready cluster
  and a persisted status object whose \<^verbatim>\<open>clusterStatus\<close> is the empty list, the run
  finds a difference and updates the object with the empty list it has already; the
  status store then holds the same object, and the next run updates it again.
\<close>

theorem reconcile_rewrites_empty_status:
  "objectField (persistedStatus (JArray [])) ''clusterStatus'' = JArray []
   \<and> clusterNames emptyStatusController = Inr []
   \<and> reconcile emptyStatusController [] exampleKey
       = (Returned StatusAllOK, [Updated ''ns'' (persistedStatus (JArray []))])
   \<and> reconcile (withPersisted emptyStatusController ''ns/cm'' (persistedStatus (JArray [])))
         [Updated ''ns'' (persistedStatus (JArray []))] exampleKey
       = (Returned StatusAllOK,
          [Updated ''ns'' (persistedStatus (JArray [])), Updated ''ns'' (persistedStatus (JArray []))])"
  by code_simp

text \<open>
  The example with one ready cluster: the first run updates the persisted object, which
  keeps its label, and the run that finds the updated object writes nothing.
\<close>

lemma reconcile_update_example:
  "reconcile (exampleController alwaysSynced [''c1'']
       (Some (persistedStatus (JArray [])))) [] exampleKey
   = (Returned StatusAllOK, [Updated ''ns'' (persistedStatus runningClusterStatus)])"
  by code_simp

lemma reconcile_twice_example:
  "reconcile (exampleController alwaysSynced [''c1''] (Some (persistedStatus (JArray [])))) []
       exampleKey
     = (Returned StatusAllOK, [Updated ''ns'' (persistedStatus runningClusterStatus)])
   \<and> reconcile (withPersisted (exampleController alwaysSynced [''c1'']
          (Some (persistedStatus (JArray [])))) ''ns/cm'' (persistedStatus runningClusterStatus))
       [Updated ''ns'' (persistedStatus runningClusterStatus)] exampleKey
     = (Returned StatusAllOK, [Updated ''ns'' (persistedStatus runningClusterStatus)])"
  by code_simp

end
